theory Spec2Isabelle
  imports Main
begin

section \<open>JavaScript values, exceptions and the process environment\<close>

text \<open>
  A property read from a JSON object is absent (\<open>undefined\<close>, dropped again when the
  object is serialised), \<open>null\<close>, or a value.
\<close>

datatype 'a js = Undefined | Null | Val 'a

text \<open>
  What axios rejects with: a response carrying an HTTP status, or no response at all
  (time-out, refused connection).
\<close>

datatype axios_error = HttpStatus nat | NoResponse

text \<open>
  Everything the service throws. \<open>AppError message statusCode errorCode\<close> is the class of
  the error handler module (accents of the French messages are dropped, strings here are
  ASCII); \<open>JoseError code\<close> is an error of the jose library, told apart by its \<open>code\<close>;
  \<open>NamedError name\<close> is any other JavaScript error, told apart by its \<open>name\<close>.
\<close>

datatype exn =
    AppError string nat string
  | JoseError string
  | AxiosError axios_error
  | NamedError string

fun isAppError :: "exn \<Rightarrow> bool" where
  "isAppError (AppError m s c) = True"
| "isAppError e = False"

text \<open>The \<open>code\<close> property that the catch block of \<open>verifyAccessToken\<close> reads.\<close>

fun code_of :: "exn \<Rightarrow> string option" where
  "code_of (JoseError c) = Some c"
| "code_of e = None"

text \<open>The table \<open>AuthErrorCodes\<close>: every code is its own name.\<close>

abbreviation INVALID_CREDENTIALS :: string where "INVALID_CREDENTIALS \<equiv> ''INVALID_CREDENTIALS''"
abbreviation TOKEN_EXPIRED :: string where "TOKEN_EXPIRED \<equiv> ''TOKEN_EXPIRED''"
abbreviation TOKEN_INVALID :: string where "TOKEN_INVALID \<equiv> ''TOKEN_INVALID''"
abbreviation INVALID_REFRESH_TOKEN :: string where "INVALID_REFRESH_TOKEN \<equiv> ''INVALID_REFRESH_TOKEN''"
abbreviation UNAUTHORIZED :: string where "UNAUTHORIZED \<equiv> ''UNAUTHORIZED''"

text \<open>
  \<open>process.env\<close>: a variable that is not set reads \<open>undefined\<close>. The variable
  \<open>TZ\<close> (the Dockerfile sets \<open>Europe/Paris\<close>) is present through what it decides:
  \<open>LocalTZA t isUTC\<close> is the offset in milliseconds of local time from UTC, as in
  ECMAScript, at the UTC instant \<open>t\<close> when \<open>isUTC\<close> holds and at the local time
  value \<open>t\<close> otherwise.
\<close>

record env =
  API_URL :: "string option"
  FRONTEND_URL :: "string option"
  ACCESS_TOKEN_EXPIRES_IN :: "string option"
  REFRESH_TOKEN_EXPIRES_IN :: "string option"
  GOOGLE_CLIENT_ID :: "string option"
  GOOGLE_CLIENT_SECRET :: "string option"
  GITHUB_CLIENT_ID :: "string option"
  GITHUB_CLIENT_SECRET :: "string option"
  AUTH0_DOMAIN :: "string option"
  AUTH0_AUDIENCE :: "string option"
  LocalTZA :: "int \<Rightarrow> bool \<Rightarrow> int"

text \<open>\<open>process.env.X || dflt\<close>: an unset and an empty variable both give the default.\<close>

definition env_or :: "string option \<Rightarrow> string \<Rightarrow> string" where
  "env_or v dflt = (case v of None \<Rightarrow> dflt | Some s \<Rightarrow> if s = [] then dflt else s)"

subsection \<open>parseInt\<close>

text \<open>
  \<open>parseInt(s)\<close> without a radix: leading (ASCII) white space and one sign are skipped, a
  \<open>0x\<close> prefix selects radix 16, the longest prefix of digits is read, and no digit at
  all gives \<open>NaN\<close> (here \<open>None\<close>).
\<close>

definition js_whitespace :: "char \<Rightarrow> bool" where
  "js_whitespace c = ((of_char c :: nat) \<in> {9, 10, 11, 12, 13, 32})"

definition digit_of :: "nat \<Rightarrow> char \<Rightarrow> nat option" where
  "digit_of radix c =
     (let n = (of_char c :: nat);
          v = (if 48 \<le> n \<and> n \<le> 57 then Some (n - 48)
               else if 97 \<le> n \<and> n \<le> 122 then Some (n - 87)
               else if 65 \<le> n \<and> n \<le> 90 then Some (n - 55)
               else None)
      in case v of None \<Rightarrow> None | Some d \<Rightarrow> if d < radix then Some d else None)"

fun parse_digits :: "nat \<Rightarrow> string \<Rightarrow> nat option \<Rightarrow> nat option" where
  "parse_digits radix [] acc = acc"
| "parse_digits radix (c # cs) acc =
     (case digit_of radix c of
        None \<Rightarrow> acc
      | Some d \<Rightarrow> parse_digits radix cs
                  (Some (radix * (case acc of None \<Rightarrow> 0 | Some a \<Rightarrow> a) + d)))"

definition parseInt :: "string \<Rightarrow> int option" where
  "parseInt s =
     (let s1 = dropWhile js_whitespace s;
          neg = (case s1 of [] \<Rightarrow> False | c # cs \<Rightarrow> c = CHR ''-'');
          s2 = (case s1 of [] \<Rightarrow> s1
                | c # cs \<Rightarrow> if c = CHR ''-'' \<or> c = CHR ''+'' then cs else s1);
          hex = (case s2 of a # b # cs \<Rightarrow> a = CHR ''0'' \<and> (b = CHR ''x'' \<or> b = CHR ''X'')
                 | _ \<Rightarrow> False);
          digits = (if hex then parse_digits 16 (drop 2 s2) None
                    else parse_digits 10 s2 None)
      in map_option (\<lambda>n. if neg then - int n else int n) digits)"

subsection \<open>Dates\<close>

text \<open>
  \<open>d.setDate(d.getDate() + days)\<close> on a date holding the instant \<open>now\<close>: the
  date is read in local time, the days are added to the calendar day with the time of day
  kept, and the local result is turned back into an instant.
\<close>

definition setDate_plus :: "env \<Rightarrow> int \<Rightarrow> int \<Rightarrow> int" where
  "setDate_plus ev now days =
     (let t = now + LocalTZA ev now True;
          newDate = t + days * 86400000
      in newDate - LocalTZA ev newDate False)"

subsection \<open>Values spliced into a URL path\<close>

text \<open>
  The store client builds several request paths by a template literal without encoding
  the value. What follows the first \<open>#\<close> or \<open>?\<close> is a fragment or a query and never
  part of the path. A value made of unreserved characters only (letters, digits,
  \<open>-\<close>, \<open>.\<close>, \<open>_\<close>, \<open>~\<close>; not a dot segment) is a path segment that reads
  as itself.
\<close>

definition unreserved :: "char \<Rightarrow> bool" where
  "unreserved c =
     (let n = (of_char c :: nat)
      in (48 \<le> n \<and> n \<le> 57) \<or> (65 \<le> n \<and> n \<le> 90) \<or> (97 \<le> n \<and> n \<le> 122)
         \<or> n = 45 \<or> n = 46 \<or> n = 95 \<or> n = 126)"

definition plain_segment :: "string \<Rightarrow> bool" where
  "plain_segment s = (s \<noteq> [] \<and> list_all unreserved s \<and> s \<noteq> ''.'' \<and> s \<noteq> ''..'')"

definition cut_at_query :: "string \<Rightarrow> string" where
  "cut_at_query v = takeWhile (\<lambda>c. c \<noteq> CHR ''#'' \<and> c \<noteq> CHR ''?'') v"

section \<open>The record store behind \<open>DbServiceClient\<close>\<close>

record user =
  u_id :: string
  u_email :: string
  u_password :: string
  u_roles :: "string list"
  u_active :: bool
  u_emailVerified :: bool
  u_firstName :: "string option"
  u_lastName :: "string option"
  u_picture :: "string option"
  u_provider :: "string option"
  u_providerId :: "string option"

text \<open>
  Key material is symbolic: \<open>PKCS8 n\<close> is the PKCS#8 PEM text of the private half of
  RSA key number \<open>n\<close>, \<open>SPKI n\<close> the SPKI PEM text of its public half, and \<open>NotPem s\<close>
  any other string.
\<close>

datatype pem = PKCS8 nat | SPKI nat | NotPem string

record key_pair =
  kp_kid :: string
  kp_privateKey :: pem
  kp_publicKey :: pem
  kp_algorithm :: string
  kp_active :: bool

text \<open>Times are milliseconds since the epoch; \<open>expiresAt\<close> travels as an ISO string.\<close>

record refresh_token =
  rt_token :: string
  rt_userId :: string
  rt_clientId :: "string option"
  rt_expiresAt :: int
  rt_revokedAt :: "int option"

datatype db_op =
    OpCreateUser | OpGetUserById | OpGetUserByEmail | OpUpdateUser | OpVerifyPassword
  | OpGetKeyPairByKid | OpGetActiveKeyPair
  | OpCreateRefreshToken | OpGetRefreshTokenByValue | OpRevokeRefreshToken

text \<open>
  Modelled from the spec: the record store (the remote db-service) is an external
  collaborator, only its client is in the source. The model keeps the users, the key pairs
  and the refresh-token records of sections 3 and 6 of the specification, answers 404 for
  a missing record, and \<open>faults\<close> names the endpoints that currently fail (a fault
  leaves the store unchanged). \<open>router\<close> says which value the store's router reads
  from a path segment that is not plain (percent escapes, slashes, white space and the
  like), \<open>None\<close> when such a path reaches no record.
\<close>

record store =
  users :: "user list"
  keyPairs :: "key_pair list"
  refreshTokens :: "refresh_token list"
  freshIds :: "string list"
  faults :: "db_op \<Rightarrow> axios_error option"
  router :: "string \<Rightarrow> string option"

definition endpoint :: "store \<Rightarrow> db_op \<Rightarrow> (axios_error + 'a) \<Rightarrow> axios_error + 'a" where
  "endpoint st op reply = (case faults st op of Some e \<Rightarrow> Inl e | None \<Rightarrow> reply)"

definition found :: "'a option \<Rightarrow> axios_error + 'a" where
  "found r = (case r of None \<Rightarrow> Inl (HttpStatus 404) | Some x \<Rightarrow> Inr x)"

subsection \<open>\<open>DbServiceClient\<close>\<close>

text \<open>
  The value that the store looks up when \<open>v\<close> is spliced unencoded in as the last
  segment of the path, and when it is followed by more of the path (a \<open>#\<close> or
  \<open>?\<close> then cuts that rest off, and the request misses its route).
\<close>

definition path_param :: "store \<Rightarrow> string \<Rightarrow> string option" where
  "path_param st v =
     (let s = cut_at_query v in if plain_segment s then Some s else router st s)"

definition inner_param :: "store \<Rightarrow> string \<Rightarrow> string option" where
  "inner_param st v =
     (if plain_segment v then Some v
      else if cut_at_query v \<noteq> v then None
      else router st v)"

definition row_for :: "('a \<Rightarrow> string) \<Rightarrow> 'a list \<Rightarrow> string option \<Rightarrow> 'a option" where
  "row_for key rows asked =
     (case asked of None \<Rightarrow> None | Some k \<Rightarrow> find (\<lambda>r. key r = k) rows)"

text \<open>
  The user lookups return \<open>response.data.data\<close>, which the callers test for \<open>null\<close>;
  the modelled store always sends a user or a 404.
\<close>

definition getUserById :: "store \<Rightarrow> string \<Rightarrow> axios_error + user option" where
  "getUserById st i =
     endpoint st OpGetUserById
       (case row_for u_id (users st) (path_param st i) of
          None \<Rightarrow> Inl (HttpStatus 404)
        | Some u \<Rightarrow> Inr (Some u))"

definition getUserByEmail :: "store \<Rightarrow> string \<Rightarrow> axios_error + user option" where
  "getUserByEmail st e =
     endpoint st OpGetUserByEmail
       (case find (\<lambda>u. u_email u = e) (users st) of
          None \<Rightarrow> Inl (HttpStatus 404)
        | Some u \<Rightarrow> Inr (Some u))"

definition verifyPassword :: "store \<Rightarrow> string \<Rightarrow> string \<Rightarrow> axios_error + bool" where
  "verifyPassword st i password =
     endpoint st OpVerifyPassword
       (case row_for u_id (users st) (inner_param st i) of
          None \<Rightarrow> Inl (HttpStatus 404)
        | Some u \<Rightarrow> Inr (u_password u = password))"

text \<open>The three lookups that turn a 404 into \<open>null\<close> and rethrow anything else.\<close>

definition null_on_404 :: "axios_error + 'a \<Rightarrow> axios_error + 'a option" where
  "null_on_404 r =
     (case r of
        Inr x \<Rightarrow> Inr (Some x)
      | Inl e \<Rightarrow> if e = HttpStatus 404 then Inr None else Inl e)"

definition getKeyPairByKid :: "store \<Rightarrow> string \<Rightarrow> axios_error + key_pair option" where
  "getKeyPairByKid st k =
     null_on_404 (endpoint st OpGetKeyPairByKid
                    (found (row_for kp_kid (keyPairs st) (path_param st k))))"

definition db_getActiveKeyPair :: "store \<Rightarrow> axios_error + key_pair option" where
  "db_getActiveKeyPair st =
     null_on_404 (endpoint st OpGetActiveKeyPair (found (find kp_active (keyPairs st))))"

definition getRefreshTokenByValue :: "store \<Rightarrow> string \<Rightarrow> axios_error + refresh_token option" where
  "getRefreshTokenByValue st t =
     null_on_404 (endpoint st OpGetRefreshTokenByValue
                    (found (row_for rt_token (refreshTokens st) (path_param st t))))"

definition createRefreshToken :: "store \<Rightarrow> refresh_token \<Rightarrow> (axios_error + refresh_token) \<times> store" where
  "createRefreshToken st r =
     (case faults st OpCreateRefreshToken of
        Some e \<Rightarrow> (Inl e, st)
      | None \<Rightarrow> (Inr r, st\<lparr>refreshTokens := r # refreshTokens st\<rparr>))"

text \<open>
  \<open>revoke-by-token\<close> carries the token in the request body, so the store reads the
  whole string. It marks the record revoked if it is found and answers with a body whose
  \<open>success\<close> is true; revoking twice keeps the first revocation time.
\<close>

definition mark_revoked :: "int \<Rightarrow> string \<Rightarrow> refresh_token \<Rightarrow> refresh_token" where
  "mark_revoked now t r =
     (if rt_token r = t \<and> rt_revokedAt r = None then r\<lparr>rt_revokedAt := Some now\<rparr> else r)"

definition db_revokeRefreshToken :: "store \<Rightarrow> int \<Rightarrow> string \<Rightarrow> (axios_error + bool) \<times> store" where
  "db_revokeRefreshToken st now t =
     (case faults st OpRevokeRefreshToken of
        Some e \<Rightarrow> (Inl e, st)
      | None \<Rightarrow>
          if find (\<lambda>r. rt_token r = t) (refreshTokens st) \<noteq> None
          then (Inr True, st\<lparr>refreshTokens := map (mark_revoked now t) (refreshTokens st)\<rparr>)
          else (Inl (HttpStatus 404), st))"

subsection \<open>Creating and updating users\<close>

text \<open>
  The JSON body of \<open>createUser\<close> and \<open>updateUser\<close>: a member is left out
  (\<open>Undefined\<close>), \<open>null\<close>, or a value. (\<open>updatedAt\<close> is not modelled.)
\<close>

record user_payload =
  p_email :: "string js"
  p_password :: "string js"
  p_firstName :: "string js"
  p_lastName :: "string js"
  p_picture :: "string js"
  p_emailVerified :: "bool js"
  p_roles :: "string list js"
  p_active :: "bool js"
  p_provider :: "string js"
  p_providerId :: "string js"

definition nullable :: "'a js \<Rightarrow> 'a option" where
  "nullable v = (case v of Val x \<Rightarrow> Some x | _ \<Rightarrow> None)"

definition assign :: "'a js \<Rightarrow> 'a \<Rightarrow> 'a" where
  "assign v old = (case v of Val x \<Rightarrow> x | _ \<Rightarrow> old)"

definition assign_nullable :: "'a js \<Rightarrow> 'a option \<Rightarrow> 'a option" where
  "assign_nullable v old = (case v of Undefined \<Rightarrow> old | Null \<Rightarrow> None | Val x \<Rightarrow> Some x)"

text \<open>
  Modelled from the spec: the store writes the members that the body carries and leaves
  the others as they are; a new user gets the next identifier of the store, the role
  \<open>USER\<close>, an active account and an unverified email unless the body says otherwise, and
  an email that is already taken is refused (409).
\<close>

definition apply_update :: "user_payload \<Rightarrow> user \<Rightarrow> user" where
  "apply_update p u =
     u\<lparr>u_email := assign (p_email p) (u_email u),
       u_password := assign (p_password p) (u_password u),
       u_roles := assign (p_roles p) (u_roles u),
       u_active := assign (p_active p) (u_active u),
       u_emailVerified := assign (p_emailVerified p) (u_emailVerified u),
       u_firstName := assign_nullable (p_firstName p) (u_firstName u),
       u_lastName := assign_nullable (p_lastName p) (u_lastName u),
       u_picture := assign_nullable (p_picture p) (u_picture u),
       u_provider := assign_nullable (p_provider p) (u_provider u),
       u_providerId := assign_nullable (p_providerId p) (u_providerId u)\<rparr>"

definition updateUser :: "store \<Rightarrow> string \<Rightarrow> user_payload \<Rightarrow> (axios_error + user) \<times> store" where
  "updateUser st i p =
     (case faults st OpUpdateUser of
        Some e \<Rightarrow> (Inl e, st)
      | None \<Rightarrow>
          (case row_for u_id (users st) (path_param st i) of
             None \<Rightarrow> (Inl (HttpStatus 404), st)
           | Some u \<Rightarrow>
               (Inr (apply_update p u),
                st\<lparr>users := map (\<lambda>x. if u_id x = u_id u then apply_update p x else x)
                                (users st)\<rparr>)))"

definition createUser :: "store \<Rightarrow> user_payload \<Rightarrow> (axios_error + user) \<times> store" where
  "createUser st p =
     (case faults st OpCreateUser of
        Some e \<Rightarrow> (Inl e, st)
      | None \<Rightarrow>
          (case p_email p of
             Val e \<Rightarrow>
               if find (\<lambda>u. u_email u = e) (users st) \<noteq> None then (Inl (HttpStatus 409), st)
               else (case freshIds st of
                       [] \<Rightarrow> (Inl (HttpStatus 500), st)
                     | i # ids \<Rightarrow>
                         (let u = \<lparr>u_id = i, u_email = e,
                                   u_password = assign (p_password p) [],
                                   u_roles = assign (p_roles p) [''USER''],
                                   u_active = assign (p_active p) True,
                                   u_emailVerified = assign (p_emailVerified p) False,
                                   u_firstName = nullable (p_firstName p),
                                   u_lastName = nullable (p_lastName p),
                                   u_picture = nullable (p_picture p),
                                   u_provider = nullable (p_provider p),
                                   u_providerId = nullable (p_providerId p)\<rparr>
                          in (Inr u, st\<lparr>users := users st @ [u], freshIds := ids\<rparr>)))
           | _ \<Rightarrow> (Inl (HttpStatus 400), st)))"

section \<open>Signed tokens and the jose library\<close>

text \<open>
  A presented token string is described by what the service and jose can read from it.
  \<open>decodedHeader\<close> is the outcome of
  \<open>JSON.parse(Buffer.from(token.split('.')[0], 'base64').toString())\<close>: it throws, gives a
  falsy value, or gives an object whose \<open>alg\<close>, \<open>kid\<close> and \<open>typ\<close> it carries
  (\<open>None\<close> for a missing member). \<open>body\<close> is \<open>None\<close> when the string is not a
  well-formed compact JWS over a JSON object, else the claims set. Signatures are
  symbolic: \<open>signedBy = Some n\<close> says that the third segment is the signature of the
  first two under private key \<open>n\<close>.
\<close>

record jose_header =
  h_alg :: "string option"
  h_kid :: "string option"
  h_typ :: "string option"

datatype header_decode = Throws | Falsy | Header jose_header

record claims =
  c_sub :: "string option"
  c_email :: "string option"
  c_roles :: "string list option"
  c_scope :: "string option"
  c_purpose :: "string option"
  c_iss :: "string option"
  c_aud :: "string list option"
  c_iat :: "int option"
  c_nbf :: "int option"
  c_exp :: "int option"

record token =
  decodedHeader :: header_decode
  body :: "claims option"
  signedBy :: "nat option"

datatype crypto_key = PrivateKey nat string | PublicKey nat string

definition rsa_algs :: "string list" where
  "rsa_algs = [''RS256'', ''RS384'', ''RS512'', ''PS256'', ''PS384'', ''PS512'']"

definition importPKCS8 :: "pem \<Rightarrow> string \<Rightarrow> exn + crypto_key" where
  "importPKCS8 p alg =
     (case p of
        PKCS8 n \<Rightarrow> if alg \<in> set rsa_algs then Inr (PrivateKey n alg)
                   else Inl (JoseError ''ERR_JOSE_NOT_SUPPORTED'')
      | _ \<Rightarrow> Inl (NamedError ''TypeError''))"

definition importSPKI :: "pem \<Rightarrow> string \<Rightarrow> exn + crypto_key" where
  "importSPKI p alg =
     (case p of
        SPKI n \<Rightarrow> if alg \<in> set rsa_algs then Inr (PublicKey n alg)
                  else Inl (JoseError ''ERR_JOSE_NOT_SUPPORTED'')
      | _ \<Rightarrow> Inl (NamedError ''TypeError''))"

text \<open>\<open>epoch(new Date())\<close>: whole seconds.\<close>

definition epoch :: "int \<Rightarrow> int" where
  "epoch now = now div 1000"

text \<open>
  \<open>new SignJWT(payload).setProtectedHeader(h).setIssuedAt().setIssuer(iss)
  .setAudience(aud).setExpirationTime(span).sign(key)\<close>. The time span arrives already
  read by jose (\<open>None\<close> when jose rejects the string with a TypeError, which happens
  before signing). The key must be a private key imported for the header's algorithm.
\<close>

definition SignJWT ::
  "claims \<Rightarrow> jose_header \<Rightarrow> int \<Rightarrow> string option \<Rightarrow> string option \<Rightarrow> int option \<Rightarrow> crypto_key
     \<Rightarrow> exn + token" where
  "SignJWT payload h now iss aud span key =
     (case span of
        None \<Rightarrow> Inl (NamedError ''TypeError'')
      | Some secs \<Rightarrow>
          (case key of
             PrivateKey n a \<Rightarrow>
               if h_alg h = Some a
               then Inr \<lparr>decodedHeader = Header h,
                         body = Some (payload\<lparr>c_iat := Some (epoch now), c_iss := iss,
                                             c_aud := map_option (\<lambda>a. [a]) aud,
                                             c_exp := Some (epoch now + secs)\<rparr>),
                         signedBy = Some n\<rparr>
               else Inl (NamedError ''TypeError'')
           | PublicKey n a \<Rightarrow> Inl (NamedError ''TypeError'')))"

text \<open>
  The claims validation of jose, in its order: presence of \<open>aud\<close> then \<open>iss\<close> when the
  option is given, the issuer value, the audience value (an empty option string asks for
  presence only), \<open>nbf\<close>, and last \<open>exp\<close>, whose failure alone has the code
  \<open>ERR_JWT_EXPIRED\<close>.
\<close>

definition validateClaimsSet :: "claims \<Rightarrow> string option \<Rightarrow> string option \<Rightarrow> int \<Rightarrow> exn + claims" where
  "validateClaimsSet p issuer audience now =
     (if issuer \<noteq> None \<and> c_iss p = None then Inl (JoseError ''ERR_JWT_CLAIM_VALIDATION_FAILED'')
      else if audience \<noteq> None \<and> c_aud p = None then Inl (JoseError ''ERR_JWT_CLAIM_VALIDATION_FAILED'')
      else if issuer \<noteq> None \<and> issuer \<noteq> Some [] \<and> c_iss p \<noteq> issuer
        then Inl (JoseError ''ERR_JWT_CLAIM_VALIDATION_FAILED'')
      else if audience \<noteq> None \<and> audience \<noteq> Some [] \<and> the audience \<notin> set (the (c_aud p))
        then Inl (JoseError ''ERR_JWT_CLAIM_VALIDATION_FAILED'')
      else if c_nbf p \<noteq> None \<and> the (c_nbf p) > epoch now
        then Inl (JoseError ''ERR_JWT_CLAIM_VALIDATION_FAILED'')
      else if c_exp p \<noteq> None \<and> the (c_exp p) \<le> epoch now
        then Inl (JoseError ''ERR_JWT_EXPIRED'')
      else Inr p)"

text \<open>
  \<open>jwtVerify(token, key, {issuer, audience})\<close> with the key already at hand: the token must
  parse, the key must be a public key imported for the header's algorithm, the signature
  must be that of the matching private key, and then the claims are validated.
\<close>

definition jwtVerify :: "token \<Rightarrow> crypto_key \<Rightarrow> string option \<Rightarrow> string option \<Rightarrow> int \<Rightarrow> exn + claims" where
  "jwtVerify t key issuer audience now =
     (case (decodedHeader t, body t) of
        (Header h, Some p) \<Rightarrow>
          (case h_alg h of
             None \<Rightarrow> Inl (JoseError ''ERR_JWS_INVALID'')
           | Some a \<Rightarrow>
               (case key of
                  PublicKey n ka \<Rightarrow>
                    if ka \<noteq> a then Inl (NamedError ''TypeError'')
                    else if signedBy t \<noteq> Some n
                      then Inl (JoseError ''ERR_JWS_SIGNATURE_VERIFICATION_FAILED'')
                    else validateClaimsSet p issuer audience now
                | PrivateKey n ka \<Rightarrow> Inl (NamedError ''TypeError'')))
      | _ \<Rightarrow> Inl (JoseError ''ERR_JWS_INVALID''))"

text \<open>
  \<open>jwtVerify(token, getKey, options)\<close> with a key function: jose parses the token first and
  calls \<open>getKey\<close> with the protected header only when the token is well formed.
\<close>

definition jwtVerify_with ::
  "token \<Rightarrow> (jose_header \<Rightarrow> exn + crypto_key) \<Rightarrow> string option \<Rightarrow> string option \<Rightarrow> int
     \<Rightarrow> exn + claims" where
  "jwtVerify_with t getKey issuer audience now =
     (case (decodedHeader t, body t) of
        (Header h, Some p) \<Rightarrow>
          (case h_alg h of
             None \<Rightarrow> Inl (JoseError ''ERR_JWS_INVALID'')
           | Some a \<Rightarrow>
               (case getKey h of
                  Inl e \<Rightarrow> Inl e
                | Inr key \<Rightarrow> jwtVerify t key issuer audience now))
      | _ \<Rightarrow> Inl (JoseError ''ERR_JWS_INVALID''))"

section \<open>\<open>utils/jwt.js\<close>\<close>

text \<open>
  Every function takes the environment, the store and the clock reading \<open>now\<close>
  (milliseconds) it runs at. \<open>secs\<close> is jose's reading of a time span such as \<open>15m\<close>
  in seconds.
\<close>

definition getActiveKeyPair :: "store \<Rightarrow> key_pair option" where
  "getActiveKeyPair st = (case db_getActiveKeyPair st of Inl e \<Rightarrow> None | Inr k \<Rightarrow> k)"

definition generateAccessToken ::
  "(string \<Rightarrow> int option) \<Rightarrow> env \<Rightarrow> store \<Rightarrow> int \<Rightarrow> user \<Rightarrow> exn + token" where
  "generateAccessToken secs ev st now u =
     (case getActiveKeyPair st of
        None \<Rightarrow> Inl (NamedError ''Error'')
      | Some activeKeyPair \<Rightarrow>
          (case importPKCS8 (kp_privateKey activeKeyPair) (kp_algorithm activeKeyPair) of
             Inl e \<Rightarrow> Inl e
           | Inr privateKey \<Rightarrow>
               SignJWT
                 \<lparr>c_sub = Some (u_id u), c_email = Some (u_email u), c_roles = Some (u_roles u),
                  c_scope = Some ''openid profile email'', c_purpose = None, c_iss = None,
                  c_aud = None, c_iat = None, c_nbf = None, c_exp = None\<rparr>
                 \<lparr>h_alg = Some (kp_algorithm activeKeyPair), h_kid = Some (kp_kid activeKeyPair),
                  h_typ = Some ''JWT''\<rparr>
                 now (API_URL ev) (FRONTEND_URL ev)
                 (secs (env_or (ACCESS_TOKEN_EXPIRES_IN ev) ''15m'')) privateKey))"

text \<open>
  \<open>crypto.randomBytes(64).toString('hex')\<close>: \<open>rnd\<close> is the 64 random bytes read as
  one number, the token its 128 hexadecimal digits.
\<close>

definition hex_char :: "nat \<Rightarrow> char" where
  "hex_char d = (if d < 10 then char_of (48 + d) else char_of (87 + d))"

fun hex_digits :: "nat \<Rightarrow> nat \<Rightarrow> string" where
  "hex_digits 0 n = []"
| "hex_digits (Suc k) n = hex_digits k (n div 16) @ [hex_char (n mod 16)]"

definition randomHex :: "nat \<Rightarrow> string" where
  "randomHex rnd = hex_digits 128 rnd"

text \<open>
  \<open>generateRefreshToken\<close>. \<open>setDate\<close> with \<open>NaN\<close>, or a date out of the range of
  \<open>Date\<close>, makes \<open>toISOString\<close> throw a RangeError.
\<close>

definition generateRefreshToken ::
  "env \<Rightarrow> store \<Rightarrow> int \<Rightarrow> nat \<Rightarrow> string \<Rightarrow> string option \<Rightarrow> (exn + string) \<times> store" where
  "generateRefreshToken ev st now rnd userId clientId =
     (let token = randomHex rnd;
          expiresIn = env_or (REFRESH_TOKEN_EXPIRES_IN ev) ''7d'';
          days = parseInt (remove1 (CHR ''d'') expiresIn)
      in case days of
           None \<Rightarrow> (Inl (NamedError ''RangeError''), st)
         | Some d \<Rightarrow>
             (let expiresAt = setDate_plus ev now d
              in if \<bar>expiresAt\<bar> > 8640000000000000 then (Inl (NamedError ''RangeError''), st)
                 else (case createRefreshToken st
                              \<lparr>rt_token = token, rt_userId = userId, rt_clientId = clientId,
                               rt_expiresAt = expiresAt, rt_revokedAt = None\<rparr> of
                         (Inl e, st') \<Rightarrow> (Inl (AxiosError e), st')
                       | (Inr r, st') \<Rightarrow> (Inr token, st'))))"

text \<open>The body of the \<open>try\<close> block of \<open>verifyAccessToken\<close>.\<close>

definition verifyAccessToken_try :: "env \<Rightarrow> store \<Rightarrow> int \<Rightarrow> token \<Rightarrow> exn + claims" where
  "verifyAccessToken_try ev st now t =
     (case decodedHeader t of
        Throws \<Rightarrow> Inl (NamedError ''SyntaxError'')
      | Falsy \<Rightarrow> Inl (AppError ''Token invalide'' 401 TOKEN_INVALID)
      | Header h \<Rightarrow>
          (case h_kid h of
             None \<Rightarrow> Inl (AppError ''Token invalide'' 401 TOKEN_INVALID)
           | Some k \<Rightarrow>
               if k = [] then Inl (AppError ''Token invalide'' 401 TOKEN_INVALID)
               else (case getKeyPairByKid st k of
                       Inl e \<Rightarrow> Inl (AxiosError e)
                     | Inr None \<Rightarrow> Inl (AppError ''Cle de signature introuvable'' 401 TOKEN_INVALID)
                     | Inr (Some keyPair) \<Rightarrow>
                         (case importSPKI (kp_publicKey keyPair) (kp_algorithm keyPair) of
                            Inl e \<Rightarrow> Inl e
                          | Inr publicKey \<Rightarrow>
                              jwtVerify t publicKey (API_URL ev) (FRONTEND_URL ev) now))))"

text \<open>Its \<open>catch\<close> block. The \<open>code\<close> of an axios error is never \<open>ERR_JWT_EXPIRED\<close>.\<close>

definition verifyAccessToken :: "env \<Rightarrow> store \<Rightarrow> int \<Rightarrow> token \<Rightarrow> exn + claims" where
  "verifyAccessToken ev st now t =
     (case verifyAccessToken_try ev st now t of
        Inr payload \<Rightarrow> Inr payload
      | Inl error \<Rightarrow>
          if code_of error = Some ''ERR_JWT_EXPIRED''
          then Inl (AppError ''Token expire'' 401 TOKEN_EXPIRED)
          else if isAppError error then Inl error
          else Inl (AppError ''Token invalide'' 401 TOKEN_INVALID))"

definition verifyRefreshToken :: "store \<Rightarrow> int \<Rightarrow> string \<Rightarrow> exn + refresh_token" where
  "verifyRefreshToken st now t =
     (case getRefreshTokenByValue st t of
        Inl e \<Rightarrow> Inl (AxiosError e)
      | Inr None \<Rightarrow>
          Inl (AppError ''Token de rafraichissement invalide'' 401 INVALID_REFRESH_TOKEN)
      | Inr (Some refreshToken) \<Rightarrow>
          if rt_expiresAt refreshToken < now
          then Inl (AppError ''Token de rafraichissement expire'' 401 TOKEN_EXPIRED)
          else if rt_revokedAt refreshToken \<noteq> None
          then Inl (AppError ''Token de rafraichissement revoque'' 401 TOKEN_INVALID)
          else Inr refreshToken)"

definition revokeRefreshToken :: "store \<Rightarrow> int \<Rightarrow> string \<Rightarrow> bool \<times> store" where
  "revokeRefreshToken st now t =
     (case db_revokeRefreshToken st now t of
        (Inl e, st') \<Rightarrow> (False, st')
      | (Inr success, st') \<Rightarrow> (success, st'))"





section \<open>\<open>services/auth.service.js\<close>\<close>

record login_result =
  lr_user :: user
  lr_accessToken :: token
  lr_refreshToken :: string

record refresh_result =
  rr_success :: bool
  rr_accessToken :: token
  rr_refreshToken :: string

text \<open>\<open>getUserByEmail(email).catch(() => null)\<close>.\<close>

definition userByEmail_or_null :: "store \<Rightarrow> string \<Rightarrow> user option" where
  "userByEmail_or_null st email = (case getUserByEmail st email of Inl e \<Rightarrow> None | Inr u \<Rightarrow> u)"

definition login ::
  "(string \<Rightarrow> int option) \<Rightarrow> env \<Rightarrow> store \<Rightarrow> int \<Rightarrow> nat \<Rightarrow> string \<Rightarrow> string
     \<Rightarrow> (exn + login_result) \<times> store" where
  "login secs ev st now rnd email password =
     (case userByEmail_or_null st email of
        None \<Rightarrow> (Inl (AppError ''Email ou mot de passe incorrect'' 401 INVALID_CREDENTIALS), st)
      | Some u \<Rightarrow>
          if \<not> u_active u then (Inl (AppError ''Ce compte a ete desactive'' 403 UNAUTHORIZED), st)
          else (case verifyPassword st (u_id u) password of
                  Inl e \<Rightarrow> (Inl (AxiosError e), st)
                | Inr passwordMatch \<Rightarrow>
                    if \<not> passwordMatch
                    then (Inl (AppError ''Email ou mot de passe incorrect'' 401
                                 INVALID_CREDENTIALS), st)
                    else (case generateAccessToken secs ev st now u of
                            Inl e \<Rightarrow> (Inl e, st)
                          | Inr accessToken \<Rightarrow>
                              (case generateRefreshToken ev st now rnd (u_id u) None of
                                 (Inl e, st') \<Rightarrow> (Inl e, st')
                               | (Inr refreshToken, st') \<Rightarrow>
                                   (Inr \<lparr>lr_user = u, lr_accessToken = accessToken,
                                         lr_refreshToken = refreshToken\<rparr>, st')))))"

text \<open>
  \<open>refreshToken\<close>: verify, load the user, sign an access token, store the new refresh
  token, then revoke the presented one; the boolean of the revocation is dropped.
\<close>

definition refreshToken ::
  "(string \<Rightarrow> int option) \<Rightarrow> env \<Rightarrow> store \<Rightarrow> int \<Rightarrow> nat \<Rightarrow> string
     \<Rightarrow> (exn + refresh_result) \<times> store" where
  "refreshToken secs ev st now rnd presented =
     (case verifyRefreshToken st now presented of
        Inl e \<Rightarrow> (Inl e, st)
      | Inr refreshTokenData \<Rightarrow>
          (case getUserById st (rt_userId refreshTokenData) of
             Inl e \<Rightarrow> (Inl (AxiosError e), st)
           | Inr None \<Rightarrow>
               (Inl (AppError ''Utilisateur non trouve ou inactif'' 401 UNAUTHORIZED), st)
           | Inr (Some u) \<Rightarrow>
               if \<not> u_active u
               then (Inl (AppError ''Utilisateur non trouve ou inactif'' 401 UNAUTHORIZED), st)
               else (case generateAccessToken secs ev st now u of
                       Inl e \<Rightarrow> (Inl e, st)
                     | Inr accessToken \<Rightarrow>
                         (case generateRefreshToken ev st now rnd (u_id u)
                                 (rt_clientId refreshTokenData) of
                            (Inl e, st1) \<Rightarrow> (Inl e, st1)
                          | (Inr newRefreshToken, st1) \<Rightarrow>
                              (Inr \<lparr>rr_success = True, rr_accessToken = accessToken,
                                    rr_refreshToken = newRefreshToken\<rparr>,
                               snd (revokeRefreshToken st1 now presented))))))"

section \<open>Federated login\<close>

subsection \<open>String helpers\<close>

text \<open>\<open>v || ...\<close> on a string member: undefined, null and the empty string are falsy.\<close>

definition truthy :: "string js \<Rightarrow> string option" where
  "truthy v = (case v of Val s \<Rightarrow> if s = [] then None else Some s | _ \<Rightarrow> None)"

fun js_split :: "char \<Rightarrow> string \<Rightarrow> string list" where
  "js_split sep [] = [[]]"
| "js_split sep (c # cs) =
     (if c = sep then [] # js_split sep cs
      else (case js_split sep cs of [] \<Rightarrow> [[c]] | w # ws \<Rightarrow> (c # w) # ws))"

fun js_join :: "string \<Rightarrow> string list \<Rightarrow> string" where
  "js_join sep [] = []"
| "js_join sep [w] = w"
| "js_join sep (w # v # ws) = w @ sep @ js_join sep (v # ws)"

text \<open>\<open>name.split(' ')[0]\<close> and \<open>name.split(' ').slice(1).join(' ')\<close>.\<close>

definition first_word :: "string \<Rightarrow> string" where
  "first_word name = (case js_split (CHR '' '') name of [] \<Rightarrow> [] | w # ws \<Rightarrow> w)"

definition other_words :: "string \<Rightarrow> string" where
  "other_words name = js_join '' '' (drop 1 (js_split (CHR '' '') name))"

text \<open>Truthiness of a setting: unset and the empty string are falsy.\<close>

definition configured :: "string option \<Rightarrow> bool" where
  "configured v = (case v of None \<Rightarrow> False | Some s \<Rightarrow> s \<noteq> [])"

text \<open>What a template literal prints for a value that may be undefined.\<close>

definition tmpl :: "string option \<Rightarrow> string" where
  "tmpl v = (case v of None \<Rightarrow> ''undefined'' | Some s \<Rightarrow> s)"

text \<open>
  The result of both federated logins. \<open>fr_tokenData\<close> is \<open>None\<close> when the returned
  object has no \<open>tokenData\<close> member.
\<close>

record provider_tokens =
  pt_accessToken :: "string js"
  pt_refreshToken :: "string js"
  pt_expiresIn :: "int js"

record federated_result =
  fr_success :: bool
  fr_accessToken :: token
  fr_refreshToken :: string
  fr_user :: user
  fr_provider :: string
  fr_tokenData :: "provider_tokens option"

subsection \<open>\<open>services/auth0.service.js\<close>\<close>

record auth0_user =
  a_email :: "string js"
  a_given_name :: "string js"
  a_family_name :: "string js"
  a_name :: "string js"
  a_picture :: "string js"
  a_email_verified :: "bool js"

text \<open>
  A key of the platform's published key set; \<open>j_x5c\<close> lists its certificates, certificate
  \<open>n\<close> carrying the public half of key \<open>n\<close>.
\<close>

record jwk =
  j_kid :: string
  j_x5c :: "nat list"

text \<open>
  \<open>jwt.verify(token, certificate, {algorithms: ['RS256'], audience, issuer})\<close> of the
  jsonwebtoken library: algorithm, signature, \<open>nbf\<close>, \<open>exp\<close>, audience (when the
  option is truthy), issuer, in this order; the error is told apart by its name.
\<close>

definition jsonwebtoken_verify ::
  "token \<Rightarrow> nat \<Rightarrow> string option \<Rightarrow> string \<Rightarrow> int \<Rightarrow> exn + claims" where
  "jsonwebtoken_verify t cert audience issuer now =
     (case (decodedHeader t, body t) of
        (Header h, Some p) \<Rightarrow>
          if h_alg h \<noteq> Some ''RS256'' then Inl (NamedError ''JsonWebTokenError'')
          else if signedBy t \<noteq> Some cert then Inl (NamedError ''JsonWebTokenError'')
          else if c_nbf p \<noteq> None \<and> the (c_nbf p) > epoch now
            then Inl (NamedError ''NotBeforeError'')
          else if c_exp p \<noteq> None \<and> epoch now \<ge> the (c_exp p)
            then Inl (NamedError ''TokenExpiredError'')
          else if configured audience \<and> (c_aud p = None \<or> the audience \<notin> set (the (c_aud p)))
            then Inl (NamedError ''JsonWebTokenError'')
          else if c_iss p \<noteq> Some issuer then Inl (NamedError ''JsonWebTokenError'')
          else Inr p
      | _ \<Rightarrow> Inl (NamedError ''JsonWebTokenError''))"

text \<open>
  \<open>verifyAuth0Token\<close>: \<open>jwksReply\<close> is the answer of the platform's
  \<open>/.well-known/jwks.json\<close>. \<open>jwt.decode\<close> gives \<open>null\<close> for a string that does not
  parse; a key without certificate makes the verification throw a plain error.
\<close>

definition verifyAuth0Token_try ::
  "env \<Rightarrow> (axios_error + jwk list) \<Rightarrow> int \<Rightarrow> token \<Rightarrow> exn + claims" where
  "verifyAuth0Token_try ev jwksReply now t =
     (case jwksReply of
        Inl e \<Rightarrow> Inl (AxiosError e)
      | Inr keys \<Rightarrow>
          (case (decodedHeader t, body t) of
             (Header h, Some p) \<Rightarrow>
               (case truthy (case h_kid h of None \<Rightarrow> Undefined | Some k \<Rightarrow> Val k) of
                  None \<Rightarrow> Inl (AppError ''Token invalide'' 401 TOKEN_INVALID)
                | Some k \<Rightarrow>
                    (case find (\<lambda>j. j_kid j = k) keys of
                       None \<Rightarrow> Inl (AppError ''Cle de signature introuvable'' 401 TOKEN_INVALID)
                     | Some key \<Rightarrow>
                         (case j_x5c key of
                            [] \<Rightarrow> Inl (NamedError ''Error'')
                          | cert # certs \<Rightarrow>
                              jsonwebtoken_verify t cert (AUTH0_AUDIENCE ev)
                                (''https://'' @ tmpl (AUTH0_DOMAIN ev) @ ''/'') now)))
           | _ \<Rightarrow> Inl (AppError ''Token invalide'' 401 TOKEN_INVALID)))"

definition verifyAuth0Token ::
  "env \<Rightarrow> (axios_error + jwk list) \<Rightarrow> int \<Rightarrow> token \<Rightarrow> exn + claims" where
  "verifyAuth0Token ev jwksReply now t =
     (case verifyAuth0Token_try ev jwksReply now t of
        Inr payload \<Rightarrow> Inr payload
      | Inl error \<Rightarrow>
          if error = NamedError ''TokenExpiredError''
          then Inl (AppError ''Token expire'' 401 TOKEN_EXPIRED)
          else if error = NamedError ''JsonWebTokenError''
          then Inl (AppError ''Token invalide'' 401 TOKEN_INVALID)
          else Inl error)"

text \<open>
  The body that \<open>syncAuth0User\<close> builds once and sends both when it creates and when it
  updates the local user.
\<close>

definition auth0_userData :: "string \<Rightarrow> auth0_user \<Rightarrow> user_payload" where
  "auth0_userData email auth0User =
     \<lparr>p_email = Val email,
      p_password = Undefined,
      p_firstName = Val (case truthy (a_given_name auth0User) of
                           Some g \<Rightarrow> g
                         | None \<Rightarrow>
                             (case truthy (case a_name auth0User of
                                             Val n \<Rightarrow> Val (first_word n) | _ \<Rightarrow> Undefined) of
                                Some w \<Rightarrow> w
                              | None \<Rightarrow> email)),
      p_lastName = Val (case truthy (a_family_name auth0User) of
                          Some f \<Rightarrow> f
                        | None \<Rightarrow>
                            (case truthy (case a_name auth0User of
                                            Val n \<Rightarrow> Val (other_words n) | _ \<Rightarrow> Undefined) of
                               Some w \<Rightarrow> w
                             | None \<Rightarrow> ''User'')),
      p_picture = (case truthy (a_picture auth0User) of Some pic \<Rightarrow> Val pic | None \<Rightarrow> Null),
      p_emailVerified = Val (a_email_verified auth0User = Val True),
      p_roles = Val [''USER''],
      p_active = Undefined,
      p_provider = Undefined,
      p_providerId = Undefined\<rparr>"

text \<open>
  \<open>syncAuth0User\<close>; \<open>pw\<close> is the generated password. Its \<open>catch\<close> block logs the
  variable \<open>email\<close>, which is declared inside the \<open>try\<close> block and out of scope there,
  so every error of the body leaves the function as a ReferenceError.
\<close>

definition syncAuth0User_try :: "store \<Rightarrow> string \<Rightarrow> auth0_user \<Rightarrow> (exn + user) \<times> store" where
  "syncAuth0User_try st pw auth0User =
     (case truthy (a_email auth0User) of
        None \<Rightarrow> (Inl (AppError ''Email requis pour la synchronisation'' 400 ''SYNC_ERROR''), st)
      | Some email \<Rightarrow>
          (let userData = auth0_userData email auth0User
           in case userByEmail_or_null st email of
                Some u \<Rightarrow>
                  (case updateUser st (u_id u) userData of
                     (Inl e, st') \<Rightarrow> (Inl (AxiosError e), st')
                   | (Inr u', st') \<Rightarrow> (Inr u', st'))
              | None \<Rightarrow>
                  (case createUser st (userData\<lparr>p_password := Val pw, p_active := Val True\<rparr>) of
                     (Inl e, st') \<Rightarrow> (Inl (AxiosError e), st')
                   | (Inr u', st') \<Rightarrow> (Inr u', st'))))"

definition syncAuth0User :: "store \<Rightarrow> string \<Rightarrow> auth0_user \<Rightarrow> (exn + user) \<times> store" where
  "syncAuth0User st pw auth0User =
     (case syncAuth0User_try st pw auth0User of
        (Inl error, st') \<Rightarrow> (Inl (NamedError ''ReferenceError''), st')
      | (Inr u, st') \<Rightarrow> (Inr u, st'))"

text \<open>
  The answers of the platform: its key set and its \<open>/userinfo\<close> for the presented token.
\<close>

record auth0_replies =
  jwksReply :: "axios_error + jwk list"
  userinfoReply :: "axios_error + auth0_user"

definition getAuth0UserInfo :: "auth0_replies \<Rightarrow> exn + auth0_user" where
  "getAuth0UserInfo replies =
     (case userinfoReply replies of
        Inl e \<Rightarrow> Inl (AppError ''Impossible de recuperer les informations utilisateur'' 500
                        ''AUTH0_USERINFO_ERROR'')
      | Inr info \<Rightarrow> Inr info)"

definition authenticateWithAuth0 ::
  "(string \<Rightarrow> int option) \<Rightarrow> env \<Rightarrow> store \<Rightarrow> int \<Rightarrow> nat \<Rightarrow> string \<Rightarrow> auth0_replies \<Rightarrow> token
     \<Rightarrow> (exn + federated_result) \<times> store" where
  "authenticateWithAuth0 secs ev st now rnd pw replies auth0Token =
     (case verifyAuth0Token ev (jwksReply replies) now auth0Token of
        Inl e \<Rightarrow> (Inl e, st)
      | Inr auth0Payload \<Rightarrow>
          (case getAuth0UserInfo replies of
             Inl e \<Rightarrow> (Inl e, st)
           | Inr userInfo \<Rightarrow>
               (case syncAuth0User st pw userInfo of
                  (Inl e, st1) \<Rightarrow> (Inl e, st1)
                | (Inr localUser, st1) \<Rightarrow>
                    (case generateAccessToken secs ev st1 now localUser of
                       Inl e \<Rightarrow> (Inl e, st1)
                     | Inr accessToken \<Rightarrow>
                         (case generateRefreshToken ev st1 now rnd (u_id localUser) None of
                            (Inl e, st2) \<Rightarrow> (Inl e, st2)
                          | (Inr refreshToken', st2) \<Rightarrow>
                              (Inr \<lparr>fr_success = True, fr_accessToken = accessToken,
                                    fr_refreshToken = refreshToken', fr_user = localUser,
                                    fr_provider = ''auth0'', fr_tokenData = None\<rparr>, st2))))))"

subsection \<open>\<open>services/oauth.service.js\<close>\<close>

record provider_config =
  pc_clientId :: "string option"
  pc_clientSecret :: "string option"

text \<open>The table \<open>this.providers\<close> (the URLs and scopes play no part below).\<close>

definition providers :: "env \<Rightarrow> string \<Rightarrow> provider_config option" where
  "providers ev provider =
     (if provider = ''google''
      then Some \<lparr>pc_clientId = GOOGLE_CLIENT_ID ev, pc_clientSecret = GOOGLE_CLIENT_SECRET ev\<rparr>
      else if provider = ''github''
      then Some \<lparr>pc_clientId = GITHUB_CLIENT_ID ev, pc_clientSecret = GITHUB_CLIENT_SECRET ev\<rparr>
      else None)"

text \<open>The body of the provider's token endpoint.\<close>

record token_response =
  access_token :: "string js"
  refresh_token :: "string js"
  expires_in :: "int js"

text \<open>The profile of the provider's user-info endpoint, and an entry of GitHub's email list.\<close>

record raw_user_info =
  r_id :: "string js"
  r_email :: "string js"
  r_verified_email :: "bool js"
  r_email_verified :: "bool js"
  r_given_name :: "string js"
  r_family_name :: "string js"
  r_picture :: "string js"
  r_name :: "string js"
  r_avatar_url :: "string js"

record gh_email =
  e_email :: string
  e_primary :: bool
  e_verified :: bool

text \<open>
  What the provider answers during one login: to the code exchange, to the user-info
  request and (GitHub) to the email request. The authorization code, the redirect URI and
  the state only travel to the provider.
\<close>

record provider_replies =
  tokenReply :: "axios_error + token_response"
  userReply :: "axios_error + raw_user_info"
  emailsReply :: "axios_error + gh_email list"

definition exchangeCodeForToken ::
  "env \<Rightarrow> string \<Rightarrow> provider_replies \<Rightarrow> exn + token_response" where
  "exchangeCodeForToken ev provider replies =
     (case providers ev provider of
        None \<Rightarrow> Inl (AppError (''Provider '' @ provider @ '' non configure'') 400
                       ''PROVIDER_NOT_CONFIGURED'')
      | Some config \<Rightarrow>
          if \<not> configured (pc_clientId config) \<or> \<not> configured (pc_clientSecret config)
          then Inl (AppError (''Provider '' @ provider @ '' non configure'') 400
                      ''PROVIDER_NOT_CONFIGURED'')
          else (case tokenReply replies of
                  Inl e \<Rightarrow> Inl (AppError (''Erreur d'authentification '' @ provider) 400
                                 ''OAUTH_TOKEN_EXCHANGE_ERROR'')
                | Inr data \<Rightarrow> Inr data))"

record oauth_user =
  n_providerId :: "string js"
  n_provider :: string
  n_email :: "string js"
  n_emailVerified :: bool
  n_firstName :: "string js"
  n_lastName :: "string js"
  n_picture :: "string js"

definition normalizeUserInfo :: "string \<Rightarrow> raw_user_info \<Rightarrow> oauth_user" where
  "normalizeUserInfo provider rawUserInfo =
     (let normalized = \<lparr>n_providerId = (case r_id rawUserInfo of Val i \<Rightarrow> Val i | _ \<Rightarrow> Undefined),
                         n_provider = provider, n_email = r_email rawUserInfo,
                         n_emailVerified = False, n_firstName = Null, n_lastName = Null,
                         n_picture = Null\<rparr>
      in if provider = ''google''
         then normalized\<lparr>n_emailVerified := (r_verified_email rawUserInfo = Val True),
                         n_firstName := r_given_name rawUserInfo,
                         n_lastName := r_family_name rawUserInfo,
                         n_picture := r_picture rawUserInfo\<rparr>
         else if provider = ''github''
         then (case truthy (r_name rawUserInfo) of
                 Some name \<Rightarrow>
                   normalized\<lparr>n_emailVerified := (r_email_verified rawUserInfo = Val True),
                              n_firstName := Val (first_word name),
                              n_lastName := (if other_words name = [] then Null
                                             else Val (other_words name)),
                              n_picture := r_avatar_url rawUserInfo\<rparr>
               | None \<Rightarrow>
                   normalized\<lparr>n_emailVerified := (r_email_verified rawUserInfo = Val True),
                              n_picture := r_avatar_url rawUserInfo\<rparr>)
         else normalized)"

text \<open>
  \<open>getUserInfo\<close>: for GitHub the email list is fetched too; the primary verified entry,
  else the first entry, gives the email, and a failed email request only clears the
  verified flag. For a provider outside the table reading the URL throws, which the
  \<open>catch\<close> block turns into the same error as a failed request.
\<close>

definition github_emails :: "provider_replies \<Rightarrow> raw_user_info \<Rightarrow> raw_user_info" where
  "github_emails replies userInfo =
     (case emailsReply replies of
        Inl e \<Rightarrow> userInfo\<lparr>r_email_verified := Val False\<rparr>
      | Inr emails \<Rightarrow>
          (let primaryEmail = find (\<lambda>e. e_primary e \<and> e_verified e) emails;
               firstEmail = (case emails of [] \<Rightarrow> Undefined | e # es \<Rightarrow> Val (e_email e))
           in userInfo\<lparr>r_email := (case primaryEmail of
                                       None \<Rightarrow> firstEmail
                                     | Some e \<Rightarrow> if e_email e = [] then firstEmail
                                                else Val (e_email e)),
                        r_email_verified := Val (primaryEmail \<noteq> None)\<rparr>))"

definition getUserInfo :: "env \<Rightarrow> string \<Rightarrow> provider_replies \<Rightarrow> exn + oauth_user" where
  "getUserInfo ev provider replies =
     (case providers ev provider of
        None \<Rightarrow> Inl (AppError (''Erreur recuperation donnees '' @ provider) 500
                       ''OAUTH_USERINFO_ERROR'')
      | Some config \<Rightarrow>
          (case userReply replies of
             Inl e \<Rightarrow> Inl (AppError (''Erreur recuperation donnees '' @ provider) 500
                             ''OAUTH_USERINFO_ERROR'')
           | Inr userInfo \<Rightarrow>
               Inr (normalizeUserInfo provider
                      (if provider = ''github'' then github_emails replies userInfo
                       else userInfo))))"

text \<open>
  \<open>syncOAuthUser\<close>; \<open>pw\<close> is the generated password. Only a 404 of the lookup counts
  as "no such user"; every other error leaves as \<open>OAUTH_SYNC_ERROR\<close>.
\<close>

definition oauth_sync_error :: exn where
  "oauth_sync_error =
     AppError ''Erreur interne lors de la synchronisation du compte'' 500 ''OAUTH_SYNC_ERROR''"

definition syncOAuthUser :: "store \<Rightarrow> string \<Rightarrow> oauth_user \<Rightarrow> (exn + user) \<times> store" where
  "syncOAuthUser st pw oauthUser =
     (case getUserByEmail st (case n_email oauthUser of
                                Val e \<Rightarrow> e | Null \<Rightarrow> ''null'' | Undefined \<Rightarrow> ''undefined'') of
        Inl e \<Rightarrow>
          if e \<noteq> HttpStatus 404 then (Inl oauth_sync_error, st)
          else (case createUser st
                       \<lparr>p_email = n_email oauthUser, p_password = Val pw,
                        p_firstName = n_firstName oauthUser, p_lastName = n_lastName oauthUser,
                        p_picture = n_picture oauthUser,
                        p_emailVerified = Val (n_emailVerified oauthUser),
                        p_roles = Undefined, p_active = Undefined,
                        p_provider = Val (n_provider oauthUser),
                        p_providerId = n_providerId oauthUser\<rparr> of
                  (Inl e', st') \<Rightarrow> (Inl oauth_sync_error, st')
                | (Inr u, st') \<Rightarrow> (Inr u, st'))
      | Inr None \<Rightarrow>
          (case createUser st
                  \<lparr>p_email = n_email oauthUser, p_password = Val pw,
                   p_firstName = n_firstName oauthUser, p_lastName = n_lastName oauthUser,
                   p_picture = n_picture oauthUser,
                   p_emailVerified = Val (n_emailVerified oauthUser),
                   p_roles = Undefined, p_active = Undefined,
                   p_provider = Val (n_provider oauthUser),
                   p_providerId = n_providerId oauthUser\<rparr> of
             (Inl e', st') \<Rightarrow> (Inl oauth_sync_error, st')
           | (Inr u, st') \<Rightarrow> (Inr u, st'))
      | Inr (Some localUser) \<Rightarrow>
          (case updateUser st (u_id localUser)
                  \<lparr>p_email = Undefined, p_password = Undefined,
                   p_firstName = n_firstName oauthUser, p_lastName = n_lastName oauthUser,
                   p_picture = n_picture oauthUser, p_emailVerified = Undefined,
                   p_roles = Undefined, p_active = Undefined,
                   p_provider = Val (n_provider oauthUser),
                   p_providerId = n_providerId oauthUser\<rparr> of
             (Inl e', st') \<Rightarrow> (Inl oauth_sync_error, st')
           | (Inr u, st') \<Rightarrow> (Inr u, st')))"

definition authenticateWithProvider ::
  "(string \<Rightarrow> int option) \<Rightarrow> env \<Rightarrow> store \<Rightarrow> int \<Rightarrow> nat \<Rightarrow> string \<Rightarrow> string
     \<Rightarrow> provider_replies \<Rightarrow> (exn + federated_result) \<times> store" where
  "authenticateWithProvider secs ev st now rnd pw provider replies =
     (case exchangeCodeForToken ev provider replies of
        Inl e \<Rightarrow> (Inl e, st)
      | Inr tokenData \<Rightarrow>
          (case getUserInfo ev provider replies of
             Inl e \<Rightarrow> (Inl e, st)
           | Inr userInfo \<Rightarrow>
               if truthy (n_email userInfo) = None
               then (Inl (AppError ''Email requis pour l'authentification'' 400 ''EMAIL_REQUIRED''),
                     st)
               else (case syncOAuthUser st pw userInfo of
                       (Inl e, st1) \<Rightarrow> (Inl e, st1)
                     | (Inr localUser, st1) \<Rightarrow>
                         (case generateAccessToken secs ev st1 now localUser of
                            Inl e \<Rightarrow> (Inl e, st1)
                          | Inr accessToken \<Rightarrow>
                              (case generateRefreshToken ev st1 now rnd (u_id localUser) None of
                                 (Inl e, st2) \<Rightarrow> (Inl e, st2)
                               | (Inr refreshToken', st2) \<Rightarrow>
                                   (Inr \<lparr>fr_success = True, fr_accessToken = accessToken,
                                         fr_refreshToken = refreshToken', fr_user = localUser,
                                         fr_provider = provider,
                                         fr_tokenData =
                                           Some \<lparr>pt_accessToken = access_token tokenData,
                                                 pt_refreshToken = refresh_token tokenData,
                                                 pt_expiresIn = expires_in tokenData\<rparr>\<rparr>,
                                    st2))))))"

section \<open>What the issuing functions produce\<close>

text \<open>The claims set that \<open>generateAccessToken\<close> signs for a user at time \<open>t0\<close>.\<close>

definition access_claims :: "env \<Rightarrow> int \<Rightarrow> int \<Rightarrow> user \<Rightarrow> claims" where
  "access_claims ev t0 span u =
     \<lparr>c_sub = Some (u_id u), c_email = Some (u_email u), c_roles = Some (u_roles u),
      c_scope = Some ''openid profile email'', c_purpose = None, c_iss = API_URL ev,
      c_aud = map_option (\<lambda>a. [a]) (FRONTEND_URL ev), c_iat = Some (epoch t0),
      c_nbf = None, c_exp = Some (epoch t0 + span)\<rparr>"


definition signed_with :: "key_pair \<Rightarrow> nat \<Rightarrow> claims \<Rightarrow> token" where
  "signed_with k n p =
     \<lparr>decodedHeader = Header \<lparr>h_alg = Some (kp_algorithm k), h_kid = Some (kp_kid k),
                               h_typ = Some ''JWT''\<rparr>,
      body = Some p, signedBy = Some n\<rparr>"

text \<open>The record that \<open>generateRefreshToken\<close> persists.\<close>

definition issued_record :: "string \<Rightarrow> string \<Rightarrow> string option \<Rightarrow> int \<Rightarrow> refresh_token" where
  "issued_record tok uid cid expiresAt =
     \<lparr>rt_token = tok, rt_userId = uid, rt_clientId = cid, rt_expiresAt = expiresAt,
      rt_revokedAt = None\<rparr>"

section \<open>A small deployment used to run the definitions\<close>

definition secs0 :: "string \<Rightarrow> int option" where
  "secs0 s = (if s = ''15m'' then Some 900 else if s = ''24h'' then Some 86400 else None)"

definition env0 :: env where
  "env0 = \<lparr>API_URL = Some ''https://auth.example'', FRONTEND_URL = Some ''https://app.example'',
           ACCESS_TOKEN_EXPIRES_IN = None, REFRESH_TOKEN_EXPIRES_IN = None,
           GOOGLE_CLIENT_ID = Some ''google-client'', GOOGLE_CLIENT_SECRET = Some ''google-secret'',
           GITHUB_CLIENT_ID = None, GITHUB_CLIENT_SECRET = None,
           AUTH0_DOMAIN = Some ''tenant.auth0.example'', AUTH0_AUDIENCE = Some ''https://api.example'',
           LocalTZA = (\<lambda>t isUTC. 3600000)\<rparr>"

text \<open>
  The offsets of Europe/Paris around 31 March 2024, 01:00 UTC (1711846800000), when the
  clocks go from UTC+1 to UTC+2; a local time in the skipped hour is read with the offset
  before the change.
\<close>

definition paris_spring_2024 :: "int \<Rightarrow> bool \<Rightarrow> int" where
  "paris_spring_2024 t isUTC =
     (if isUTC then (if t < 1711846800000 then 3600000 else 7200000)
      else (if t < 1711846800000 + 7200000 then 3600000 else 7200000))"

definition alice :: user where
  "alice = \<lparr>u_id = ''u1'', u_email = ''alice@example.com'', u_password = ''pw'',
            u_roles = [''ADMIN''], u_active = True, u_emailVerified = True,
            u_firstName = Some ''Alice'', u_lastName = None, u_picture = None,
            u_provider = None, u_providerId = None\<rparr>"

definition key1 :: key_pair where
  "key1 = \<lparr>kp_kid = ''k1'', kp_privateKey = PKCS8 1, kp_publicKey = SPKI 1,
           kp_algorithm = ''RS256'', kp_active = True\<rparr>"

definition key2 :: key_pair where
  "key2 = \<lparr>kp_kid = ''k2'', kp_privateKey = PKCS8 2, kp_publicKey = SPKI 2,
           kp_algorithm = ''RS256'', kp_active = True\<rparr>"

definition no_faults :: "db_op \<Rightarrow> axios_error option" where
  "no_faults op = None"

definition no_route :: "string \<Rightarrow> string option" where
  "no_route s = None"

definition store0 :: store where
  "store0 = \<lparr>users = [alice], keyPairs = [key1], refreshTokens = [], freshIds = [''u2''],
             faults = no_faults, router = no_route\<rparr>"

text \<open>The same store after a key rotation: \<open>k1\<close> is retired and kept, \<open>k2\<close> is active.\<close>

definition store_rotated :: store where
  "store_rotated = store0\<lparr>keyPairs := [key1\<lparr>kp_active := False\<rparr>, key2]\<rparr>"

text \<open>Refresh-token records in each state: live, revoked, and expired.\<close>

definition store_tokens :: store where
  "store_tokens = store0\<lparr>refreshTokens :=
     [\<lparr>rt_token = ''live'', rt_userId = ''u1'', rt_clientId = Some ''web'',
       rt_expiresAt = 9000, rt_revokedAt = None\<rparr>,
      \<lparr>rt_token = ''revoked'', rt_userId = ''u1'', rt_clientId = None,
       rt_expiresAt = 9000, rt_revokedAt = Some 500\<rparr>,
      \<lparr>rt_token = ''old'', rt_userId = ''u1'', rt_clientId = None,
       rt_expiresAt = 999, rt_revokedAt = Some 500\<rparr>]\<rparr>"

text \<open>A token that names a key the store does not hold.\<close>

definition forged :: token where
  "forged = \<lparr>decodedHeader = Header \<lparr>h_alg = Some ''RS256'', h_kid = Some ''k9'', h_typ = Some ''JWT''\<rparr>,
             body = Some \<lparr>c_sub = Some ''u1'', c_email = None, c_roles = Some [''ADMIN''],
                          c_scope = None, c_purpose = None, c_iss = Some ''https://auth.example'',
                          c_aud = Some [''https://app.example''], c_iat = Some 0, c_nbf = None,
                          c_exp = Some 900\<rparr>,
             signedBy = Some 9\<rparr>"



text \<open>The deployment with its revocation endpoint out of service.\<close>

definition store_revoke_down :: store where
  "store_revoke_down =
     store_tokens\<lparr>faults := (\<lambda>op. if op = OpRevokeRefreshToken then Some (HttpStatus 503) else None)\<rparr>"

text \<open>
  Answers of a Google login and of a login through the hosted identity platform, both for
  the email of \<open>alice\<close>.
\<close>

definition google_replies :: provider_replies where
  "google_replies =
     \<lparr>tokenReply = Inr \<lparr>access_token = Val ''ya29.provider-access'',
                         refresh_token = Val ''1//provider-refresh'', expires_in = Val 3599\<rparr>,
      userReply = Inr \<lparr>r_id = Val ''1097'', r_email = Val ''alice@example.com'',
                        r_verified_email = Val True, r_email_verified = Undefined,
                        r_given_name = Val ''Alice'', r_family_name = Val ''Liddell'',
                        r_picture = Undefined, r_name = Val ''Alice Liddell'',
                        r_avatar_url = Undefined\<rparr>,
      emailsReply = Inl (HttpStatus 404)\<rparr>"

definition auth0_profile :: auth0_user where
  "auth0_profile = \<lparr>a_email = Val ''alice@example.com'', a_given_name = Val ''Alice'',
                    a_family_name = Val ''Liddell'', a_name = Val ''Alice Liddell'',
                    a_picture = Undefined, a_email_verified = Val False\<rparr>"

definition auth0_answers :: auth0_replies where
  "auth0_answers = \<lparr>jwksReply = Inr [\<lparr>j_kid = ''a0'', j_x5c = [7]\<rparr>],
                    userinfoReply = Inr auth0_profile\<rparr>"

definition auth0_token :: token where
  "auth0_token =
     \<lparr>decodedHeader = Header \<lparr>h_alg = Some ''RS256'', h_kid = Some ''a0'', h_typ = Some ''JWT''\<rparr>,
      body = Some \<lparr>c_sub = Some ''auth0|42'', c_email = None, c_roles = None,
                   c_scope = Some ''openid profile email'', c_purpose = None,
                   c_iss = Some ''https://tenant.auth0.example/'',
                   c_aud = Some [''https://api.example''], c_iat = Some 0, c_nbf = None,
                   c_exp = Some 3600\<rparr>,
      signedBy = Some 7\<rparr>"

section \<open>Properties\<close>

lemmas fixture_defs =
  secs0_def env0_def alice_def key1_def key2_def no_faults_def no_route_def store0_def
  store_rotated_def

lemmas client_defs =
  endpoint_def found_def null_on_404_def unreserved_def plain_segment_def cut_at_query_def
  path_param_def inner_param_def row_for_def getUserById_def getUserByEmail_def
  verifyPassword_def getKeyPairByKid_def db_getActiveKeyPair_def getRefreshTokenByValue_def
  createRefreshToken_def mark_revoked_def db_revokeRefreshToken_def

lemmas jose_defs =
  rsa_algs_def importPKCS8_def importSPKI_def epoch_def SignJWT_def validateClaimsSet_def
  jwtVerify_def jwtVerify_with_def

lemmas parse_defs = env_or_def js_whitespace_def digit_of_def parseInt_def

subsection \<open>Plain values in a URL path\<close>

lemma hex_char_unreserved: "d < 16 \<Longrightarrow> unreserved (hex_char d)"
proof (cases "d < 10")
  case True
  then have "(of_char (char_of (48 + d)) :: nat) = 48 + d" by simp
  with True show ?thesis by (simp add: unreserved_def hex_char_def Let_def)
next
  case False
  assume "d < 16"
  with False have "(of_char (char_of (87 + d)) :: nat) = 87 + d" by simp
  with False \<open>d < 16\<close> show ?thesis by (simp add: unreserved_def hex_char_def Let_def)
qed

lemma hex_digits_unreserved: "list_all unreserved (hex_digits k n)"
  by (induction k arbitrary: n) (simp_all add: hex_char_unreserved)

lemma length_hex_digits: "length (hex_digits k n) = k"
  by (induction k arbitrary: n) simp_all

lemma length_randomHex: "length (randomHex rnd) = 128"
  by (simp add: randomHex_def length_hex_digits)

text \<open>Every token that \<open>generateRefreshToken\<close> issues is a plain path segment.\<close>

lemma randomHex_plain: "plain_segment (randomHex rnd)"
proof -
  have "randomHex rnd \<noteq> []" "randomHex rnd \<noteq> ''.''" "randomHex rnd \<noteq> ''..''"
    using length_randomHex [of rnd] by auto
  then show ?thesis
    by (simp add: plain_segment_def randomHex_def hex_digits_unreserved)
qed

lemma unreserved_not_cut: "unreserved c \<Longrightarrow> c \<noteq> CHR ''#'' \<and> c \<noteq> CHR ''?''"
  by (auto simp: unreserved_def Let_def)

lemma cut_at_query_plain: "plain_segment s \<Longrightarrow> cut_at_query s = s"
  unfolding cut_at_query_def plain_segment_def
  by (rule takeWhile_eq_all_conv [THEN iffD2]) (auto simp: list_all_iff dest: unreserved_not_cut)

lemma path_param_plain: "plain_segment s \<Longrightarrow> path_param st s = Some s"
  by (simp add: path_param_def cut_at_query_plain)

lemma path_param_randomHex: "path_param st (randomHex rnd) = Some (randomHex rnd)"
  by (simp add: path_param_plain randomHex_plain)

subsection \<open>Refresh-token verification\<close>

text \<open>
  When the store answers the lookup, \<open>verifyRefreshToken\<close> classifies by the record of
  the value that the request path carries: none gives \<open>INVALID_REFRESH_TOKEN\<close>, an
  expired one \<open>TOKEN_EXPIRED\<close>, an unexpired revoked one \<open>TOKEN_INVALID\<close>, and otherwise
  the record is returned.
\<close>

lemma getRefreshTokenByValue_answered:
  assumes "faults st OpGetRefreshTokenByValue = None"
  shows "getRefreshTokenByValue st t = Inr (row_for rt_token (refreshTokens st) (path_param st t))"
  using assms
  by (simp add: getRefreshTokenByValue_def endpoint_def found_def null_on_404_def
           split: option.splits)

lemma verifyRefreshToken_answered:
  assumes "faults st OpGetRefreshTokenByValue = None"
  shows "verifyRefreshToken st now t =
           (case row_for rt_token (refreshTokens st) (path_param st t) of
              None \<Rightarrow> Inl (AppError ''Token de rafraichissement invalide'' 401
                             INVALID_REFRESH_TOKEN)
            | Some r \<Rightarrow>
                if rt_expiresAt r < now
                then Inl (AppError ''Token de rafraichissement expire'' 401 TOKEN_EXPIRED)
                else if rt_revokedAt r \<noteq> None
                then Inl (AppError ''Token de rafraichissement revoque'' 401 TOKEN_INVALID)
                else Inr r)"
  by (simp add: verifyRefreshToken_def getRefreshTokenByValue_answered [OF assms]
           split: option.splits)

lemma store_tokens_records:
  "refreshTokens store_tokens =
     [\<lparr>rt_token = ''live'', rt_userId = ''u1'', rt_clientId = Some ''web'',
       rt_expiresAt = 9000, rt_revokedAt = None\<rparr>,
      \<lparr>rt_token = ''revoked'', rt_userId = ''u1'', rt_clientId = None,
       rt_expiresAt = 9000, rt_revokedAt = Some 500\<rparr>,
      \<lparr>rt_token = ''old'', rt_userId = ''u1'', rt_clientId = None,
       rt_expiresAt = 999, rt_revokedAt = Some 500\<rparr>]"
  by (simp add: store_tokens_def)

lemma store_tokens_answers: "faults store_tokens OpGetRefreshTokenByValue = None"
  by (simp add: store_tokens_def store0_def no_faults_def)

lemma path_param_fragment: "path_param st ''live#x'' = Some ''live''"
  by (simp add: path_param_def cut_at_query_def plain_segment_def unreserved_def)

lemma path_param_query: "path_param st ''live?x=1'' = Some ''live''"
  by (simp add: path_param_def cut_at_query_def plain_segment_def unreserved_def)

text \<open>
  C8. The code at a failing input. The store holds no record whose value is \<open>live#x\<close> or
  \<open>live?x=1\<close>, so the claim asks for \<open>INVALID_REFRESH_TOKEN\<close>. The client splices the
  presented value unencoded into the request path, the store is asked for \<open>live\<close>, and
  \<open>verifyRefreshToken\<close> returns the record of that other token.
\<close>

theorem verifyRefreshToken_accepts_unstored_value:
  "find (\<lambda>r. rt_token r = ''live#x'') (refreshTokens store_tokens) = None
   \<and> find (\<lambda>r. rt_token r = ''live?x=1'') (refreshTokens store_tokens) = None
   \<and> verifyRefreshToken store_tokens 1000 ''live#x'' =
       Inr \<lparr>rt_token = ''live'', rt_userId = ''u1'', rt_clientId = Some ''web'',
            rt_expiresAt = 9000, rt_revokedAt = None\<rparr>
   \<and> verifyRefreshToken store_tokens 1000 ''live?x=1'' =
       Inr \<lparr>rt_token = ''live'', rt_userId = ''u1'', rt_clientId = Some ''web'',
            rt_expiresAt = 9000, rt_revokedAt = None\<rparr>"
proof -
  have absent: "find (\<lambda>r. rt_token r = ''live#x'') (refreshTokens store_tokens) = None"
               "find (\<lambda>r. rt_token r = ''live?x=1'') (refreshTokens store_tokens) = None"
    by (simp_all add: store_tokens_records)
  have fragment: "verifyRefreshToken store_tokens 1000 ''live#x'' =
       Inr \<lparr>rt_token = ''live'', rt_userId = ''u1'', rt_clientId = Some ''web'',
            rt_expiresAt = 9000, rt_revokedAt = None\<rparr>"
    by (simp add: verifyRefreshToken_answered [OF store_tokens_answers] path_param_fragment
          row_for_def store_tokens_records)
  have query: "verifyRefreshToken store_tokens 1000 ''live?x=1'' =
       Inr \<lparr>rt_token = ''live'', rt_userId = ''u1'', rt_clientId = Some ''web'',
            rt_expiresAt = 9000, rt_revokedAt = None\<rparr>"
    by (simp add: verifyRefreshToken_answered [OF store_tokens_answers] path_param_query
          row_for_def store_tokens_records)
  show ?thesis
    using absent fragment query by simp
qed

text \<open>For the presented values that are plain, the four cases of the classification.\<close>

lemma verifyRefreshToken_plain_cases:
  "verifyRefreshToken store_tokens 1000 ''unknown'' =
     Inl (AppError ''Token de rafraichissement invalide'' 401 INVALID_REFRESH_TOKEN)"
  "verifyRefreshToken store_tokens 1000 ''old'' =
     Inl (AppError ''Token de rafraichissement expire'' 401 TOKEN_EXPIRED)"
  "verifyRefreshToken store_tokens 1000 ''revoked'' =
     Inl (AppError ''Token de rafraichissement revoque'' 401 TOKEN_INVALID)"
  "verifyRefreshToken store_tokens 1000 ''live'' =
     Inr \<lparr>rt_token = ''live'', rt_userId = ''u1'', rt_clientId = Some ''web'',
          rt_expiresAt = 9000, rt_revokedAt = None\<rparr>"
  by (simp_all add: verifyRefreshToken_answered [OF store_tokens_answers] path_param_def
        cut_at_query_def plain_segment_def unreserved_def row_for_def store_tokens_records)

text \<open>
  For a presented value that is a plain path segment (every issued token is one), the
  classification is by the record of that very value.
\<close>

lemma verifyRefreshToken_plain:
  assumes "faults st OpGetRefreshTokenByValue = None" and "plain_segment t"
  shows "verifyRefreshToken st now t =
           (case find (\<lambda>r. rt_token r = t) (refreshTokens st) of
              None \<Rightarrow> Inl (AppError ''Token de rafraichissement invalide'' 401
                             INVALID_REFRESH_TOKEN)
            | Some r \<Rightarrow>
                if rt_expiresAt r < now
                then Inl (AppError ''Token de rafraichissement expire'' 401 TOKEN_EXPIRED)
                else if rt_revokedAt r \<noteq> None
                then Inl (AppError ''Token de rafraichissement revoque'' 401 TOKEN_INVALID)
                else Inr r)"
  by (simp add: verifyRefreshToken_answered [OF assms(1)] path_param_plain [OF assms(2)]
        row_for_def)

subsection \<open>Access-token verification with an unresolved key\<close>

text \<open>
  C9. Whenever the header of the presented token does not decode to an object, carries no
  (or an empty) key identifier, or carries one that the key lookup does not resolve to a
  key pair (not found, or the lookup fails), \<open>verifyAccessToken\<close> fails with an
  \<open>AppError\<close> of status 401 and code \<open>TOKEN_INVALID\<close>.
\<close>

theorem verifyAccessToken_unresolved_kid:
  assumes "(\<forall>h. decodedHeader t \<noteq> Header h)
         \<or> (\<exists>h. decodedHeader t = Header h \<and> (h_kid h = None \<or> h_kid h = Some []))
         \<or> (\<exists>h k. decodedHeader t = Header h \<and> h_kid h = Some k
                \<and> (\<forall>p. getKeyPairByKid st k \<noteq> Inr (Some p)))"
  shows "\<exists>m. verifyAccessToken ev st now t = Inl (AppError m 401 TOKEN_INVALID)"
  using assms
  by (auto simp: verifyAccessToken_def verifyAccessToken_try_def
           split: header_decode.splits option.splits sum.splits)

theorem verifyAccessToken_unresolved_kid_witness:
  "(\<forall>p. getKeyPairByKid store0 ''k9'' \<noteq> Inr (Some p))
   \<and> (\<exists>m. verifyAccessToken env0 store0 1000 forged = Inl (AppError m 401 TOKEN_INVALID))"
proof -
  have unresolved: "\<forall>p. getKeyPairByKid store0 ''k9'' \<noteq> Inr (Some p)"
    by (simp add: client_defs fixture_defs)
  have "\<exists>h k. decodedHeader forged = Header h \<and> h_kid h = Some k
                \<and> (\<forall>p. getKeyPairByKid store0 k \<noteq> Inr (Some p))"
    using unresolved by (simp add: forged_def)
  then show ?thesis
    using unresolved verifyAccessToken_unresolved_kid [of forged store0 env0 1000] by blast
qed

subsection \<open>Login failures\<close>

text \<open>
  C6. A login with an email that the lookup resolves to no user, and a login with the
  email of an active user and a password that the store rejects, fail with the same
  error: \<open>AppError\<close> with the same message, status 401 and code
  \<open>INVALID_CREDENTIALS\<close>.
\<close>

theorem login_failures_identical:
  assumes "\<forall>u. getUserByEmail st unknown \<noteq> Inr (Some u)"
      and "getUserByEmail st known = Inr (Some u)"
      and "u_active u"
      and "verifyPassword st (u_id u) wrong = Inr False"
  shows "fst (login secs ev st now rnd unknown pw) =
           Inl (AppError ''Email ou mot de passe incorrect'' 401 INVALID_CREDENTIALS)
       \<and> fst (login secs ev st now' rnd' known wrong) =
           fst (login secs ev st now rnd unknown pw)"
proof -
  have "userByEmail_or_null st unknown = None"
    using assms(1) by (cases "getUserByEmail st unknown") (auto simp: userByEmail_or_null_def)
  moreover have "userByEmail_or_null st known = Some u"
    using assms(2) by (simp add: userByEmail_or_null_def)
  ultimately show ?thesis
    using assms(3,4) by (simp add: login_def)
qed

theorem login_failures_identical_witness:
  "(\<forall>u. getUserByEmail store0 ''bob@example.com'' \<noteq> Inr (Some u))
   \<and> getUserByEmail store0 ''alice@example.com'' = Inr (Some alice)
   \<and> u_active alice
   \<and> verifyPassword store0 (u_id alice) ''guess'' = Inr False
   \<and> fst (login secs0 env0 store0 1000 1 ''alice@example.com'' ''guess'') =
       fst (login secs0 env0 store0 1000 1 ''bob@example.com'' ''guess'')"
proof -
  have a: "\<forall>u. getUserByEmail store0 ''bob@example.com'' \<noteq> Inr (Some u)"
    by (simp add: client_defs fixture_defs)
  have b: "getUserByEmail store0 ''alice@example.com'' = Inr (Some alice)"
    by (simp add: client_defs fixture_defs)
  have c: "u_active alice" by (simp add: alice_def)
  have d: "verifyPassword store0 (u_id alice) ''guess'' = Inr False"
    by (simp add: client_defs fixture_defs)
  show ?thesis
    using a b c d login_failures_identical [OF a b c d, of secs0 env0 1000 1 "''guess''" 1000 1]
    by simp
qed

subsection \<open>Issuing and verifying access tokens\<close>

lemma generateAccessToken_issues:
  assumes "getActiveKeyPair st = Some k"
      and "kp_privateKey k = PKCS8 n"
      and "kp_algorithm k \<in> set rsa_algs"
      and "secs (env_or (ACCESS_TOKEN_EXPIRES_IN ev) ''15m'') = Some span"
  shows "generateAccessToken secs ev st t0 u =
           Inr \<lparr>decodedHeader = Header \<lparr>h_alg = Some (kp_algorithm k), h_kid = Some (kp_kid k),
                                         h_typ = Some ''JWT''\<rparr>,
                body = Some (access_claims ev t0 span u),
                signedBy = Some n\<rparr>"
  using assms
  by (simp add: generateAccessToken_def importPKCS8_def SignJWT_def access_claims_def)

lemma validateClaimsSet_issued:
  assumes "c_iss p = iss" and "c_aud p = map_option (\<lambda>a. [a]) aud" and "c_nbf p = None"
      and "c_exp p = Some e" and "epoch now < e"
  shows "validateClaimsSet p iss aud now = Inr p"
  using assms by (cases iss; cases aud) (simp_all add: validateClaimsSet_def)

lemma jwtVerify_issued:
  assumes "decodedHeader t = Header h" and "h_alg h = Some a" and "body t = Some p"
      and "signedBy t = Some n"
      and "c_iss p = iss" and "c_aud p = map_option (\<lambda>a. [a]) aud" and "c_nbf p = None"
      and "c_exp p = Some e" and "epoch now < e"
  shows "jwtVerify t (PublicKey n a) iss aud now = Inr p"
  using assms validateClaimsSet_issued [of p iss aud e now]
  by (simp add: jwtVerify_def)

lemma issued_access_token_verifies:
  assumes "getActiveKeyPair st = Some k"
      and "kp_privateKey k = PKCS8 n"
      and "kp_algorithm k \<in> set rsa_algs"
      and "kp_kid k \<noteq> []"
      and "secs (env_or (ACCESS_TOKEN_EXPIRES_IN ev) ''15m'') = Some span"
      and "getKeyPairByKid st' (kp_kid k) = Inr (Some k')"
      and "kp_publicKey k' = SPKI n"
      and "kp_algorithm k' = kp_algorithm k"
      and "epoch t1 < epoch t0 + span"
      and "generateAccessToken secs ev st t0 u = Inr tok"
  shows "verifyAccessToken ev st' t1 tok = Inr (access_claims ev t0 span u)"
proof -
  have tok: "tok = \<lparr>decodedHeader = Header \<lparr>h_alg = Some (kp_algorithm k), h_kid = Some (kp_kid k),
                                         h_typ = Some ''JWT''\<rparr>,
                body = Some (access_claims ev t0 span u),
                signedBy = Some n\<rparr>"
    using generateAccessToken_issues [where secs = secs and ev = ev and st = st and k = k
            and n = n and span = span and ?t0.0 = t0 and u = u] assms(1,2,3,5,10)
    by simp
  have "jwtVerify tok (PublicKey n (kp_algorithm k)) (API_URL ev) (FRONTEND_URL ev) t1
          = Inr (access_claims ev t0 span u)"
    by (rule jwtVerify_issued [where h = "\<lparr>h_alg = Some (kp_algorithm k), h_kid = Some (kp_kid k),
                                         h_typ = Some ''JWT''\<rparr>" and e = "epoch t0 + span"])
       (simp_all add: tok access_claims_def assms(9))
  then have "verifyAccessToken_try ev st' t1 tok = Inr (access_claims ev t0 span u)"
    using assms(3,4,6,7,8)
    by (simp add: verifyAccessToken_try_def tok importSPKI_def)
  then show ?thesis
    by (simp add: verifyAccessToken_def)
qed

text \<open>
  C2. With an active key pair whose PEM texts import and belong together, whose key
  identifier is not empty and resolves to that pair, issuing an access token for any user
  succeeds, and verifying it before its expiry instant succeeds and returns the subject
  (user id), email and roles asserted at issuance.
\<close>

theorem access_token_roundtrip:
  assumes "getActiveKeyPair st = Some k"
      and "kp_privateKey k = PKCS8 n"
      and "kp_publicKey k = SPKI n"
      and "kp_algorithm k \<in> set rsa_algs"
      and "kp_kid k \<noteq> []"
      and "getKeyPairByKid st (kp_kid k) = Inr (Some k)"
      and "secs (env_or (ACCESS_TOKEN_EXPIRES_IN ev) ''15m'') = Some span"
      and "epoch t1 < epoch t0 + span"
  shows "\<exists>tok p. generateAccessToken secs ev st t0 u = Inr tok
               \<and> verifyAccessToken ev st t1 tok = Inr p
               \<and> c_sub p = Some (u_id u) \<and> c_email p = Some (u_email u)
               \<and> c_roles p = Some (u_roles u)"
proof -
  obtain tok where tok: "generateAccessToken secs ev st t0 u = Inr tok"
    using generateAccessToken_issues [where secs = secs and ev = ev and st = st and k = k
            and n = n and span = span and ?t0.0 = t0 and u = u] assms(1,2,4,7)
    by blast
  have "verifyAccessToken ev st t1 tok = Inr (access_claims ev t0 span u)"
    using issued_access_token_verifies [where secs = secs and ev = ev and st = st and k = k
            and n = n and span = span and ?t0.0 = t0 and u = u and st' = st and k' = k
            and ?t1.0 = t1 and tok = tok] assms tok
    by blast
  then show ?thesis
    using tok by (simp add: access_claims_def)
qed

lemma store0_active: "getActiveKeyPair store0 = Some key1"
  by (simp add: getActiveKeyPair_def client_defs fixture_defs)

lemma store0_k1: "getKeyPairByKid store0 (kp_kid key1) = Inr (Some key1)"
  by (simp add: client_defs fixture_defs)

lemma env0_span: "secs0 (env_or (ACCESS_TOKEN_EXPIRES_IN env0) ''15m'') = Some 900"
  by (simp add: env_or_def fixture_defs)

theorem access_token_roundtrip_witness:
  "getActiveKeyPair store0 = Some key1
   \<and> getKeyPairByKid store0 (kp_kid key1) = Inr (Some key1)
   \<and> epoch 899000 < epoch 0 + 900
   \<and> (\<exists>tok p. generateAccessToken secs0 env0 store0 0 alice = Inr tok
             \<and> verifyAccessToken env0 store0 899000 tok = Inr p
             \<and> c_sub p = Some ''u1'' \<and> c_email p = Some ''alice@example.com''
             \<and> c_roles p = Some [''ADMIN''])"
proof -
  have t: "epoch 899000 < epoch 0 + 900" by (simp add: epoch_def)
  have "\<exists>tok p. generateAccessToken secs0 env0 store0 0 alice = Inr tok
             \<and> verifyAccessToken env0 store0 899000 tok = Inr p
             \<and> c_sub p = Some (u_id alice) \<and> c_email p = Some (u_email alice)
             \<and> c_roles p = Some (u_roles alice)"
    using access_token_roundtrip [where secs = secs0 and ev = env0 and st = store0 and k = key1
            and n = 1 and span = 900 and ?t0.0 = 0 and ?t1.0 = 899000 and u = alice]
          store0_active store0_k1 env0_span t
    by (simp add: key1_def rsa_algs_def)
  then show ?thesis
    using store0_active store0_k1 t by (simp add: alice_def)
qed

subsection \<open>Key resolution and the purpose of email-verification tokens\<close>
































subsection \<open>Refresh-token rotation\<close>

lemma generateRefreshToken_stores:
  assumes "parseInt (remove1 (CHR ''d'') (env_or (REFRESH_TOKEN_EXPIRES_IN ev) ''7d'')) = Some d"
      and "\<bar>setDate_plus ev now d\<bar> \<le> 8640000000000000"
      and "faults st OpCreateRefreshToken = None"
  shows "generateRefreshToken ev st now rnd uid cid =
           (Inr (randomHex rnd),
            st\<lparr>refreshTokens :=
                 issued_record (randomHex rnd) uid cid (setDate_plus ev now d) # refreshTokens st\<rparr>)"
  using assms
  by (simp add: generateRefreshToken_def createRefreshToken_def issued_record_def Let_def)

lemma path_param_refreshTokens [simp]:
  "path_param (st\<lparr>refreshTokens := rs\<rparr>) v = path_param st v"
  by (simp add: path_param_def Let_def)

lemma getUserById_refreshTokens [simp]:
  "getUserById (st\<lparr>refreshTokens := rs\<rparr>) i = getUserById st i"
  by (simp add: getUserById_def endpoint_def)

lemma generateAccessToken_refreshTokens [simp]:
  "generateAccessToken secs ev (st\<lparr>refreshTokens := rs\<rparr>) now u = generateAccessToken secs ev st now u"
  by (simp add: generateAccessToken_def getActiveKeyPair_def db_getActiveKeyPair_def endpoint_def)

lemma revokeRefreshToken_fault:
  assumes "faults st OpRevokeRefreshToken = Some e"
  shows "revokeRefreshToken st now t = (False, st)"
  using assms by (simp add: revokeRefreshToken_def db_revokeRefreshToken_def)

lemma revokeRefreshToken_found:
  assumes "faults st OpRevokeRefreshToken = None"
      and "find (\<lambda>r. rt_token r = t) (refreshTokens st) \<noteq> None"
  shows "revokeRefreshToken st now t =
           (True, st\<lparr>refreshTokens := map (mark_revoked now t) (refreshTokens st)\<rparr>)"
  using assms by (simp add: revokeRefreshToken_def db_revokeRefreshToken_def)

lemma verifyRefreshToken_live:
  assumes "faults st OpGetRefreshTokenByValue = None"
      and "row_for rt_token (refreshTokens st) (path_param st t) = Some r"
      and "\<not> rt_expiresAt r < now"
      and "rt_revokedAt r = None"
  shows "verifyRefreshToken st now t = Inr r"
  using assms by (simp add: verifyRefreshToken_answered)

lemma verifyRefreshToken_revoked:
  assumes "faults st OpGetRefreshTokenByValue = None"
      and "row_for rt_token (refreshTokens st) (path_param st t) = Some r"
      and "\<not> rt_expiresAt r < now"
      and "rt_revokedAt r \<noteq> None"
  shows "verifyRefreshToken st now t =
           Inl (AppError ''Token de rafraichissement revoque'' 401 TOKEN_INVALID)"
  using assms by (simp add: verifyRefreshToken_answered)

text \<open>One rotation, step by step, in a store whose endpoints answer up to the revocation.\<close>

lemma refreshToken_steps:
  assumes "verifyRefreshToken st now tok = Inr r"
      and "getUserById st (rt_userId r) = Inr (Some u)"
      and "u_active u"
      and "generateAccessToken secs ev st now u = Inr a"
      and "generateRefreshToken ev st now rnd (u_id u) (rt_clientId r) = (Inr new, st1)"
  shows "refreshToken secs ev st now rnd tok =
           (Inr \<lparr>rr_success = True, rr_accessToken = a, rr_refreshToken = new\<rparr>,
            snd (revokeRefreshToken st1 now tok))"
  using assms by (simp add: refreshToken_def)

text \<open>
  C1. In a store whose endpoints all answer, for an active user and an importable active
  key pair: a refresh token issued by \<open>generateRefreshToken\<close> (at \<open>t0\<close>, from the random
  bytes \<open>rnd0\<close>) is accepted by the first \<open>refreshToken\<close> call (at \<open>t1\<close>), which returns
  success with a signed access token and a new refresh token, different from the original
  and stored as a live record of the same user and client; a second call that presents the
  same original token (at \<open>t2\<close>, nothing in between) fails with \<open>TOKEN_INVALID\<close>. Both
  calls fall before the expiry that \<open>setDate\<close> gave the original token in the local time
  zone.
\<close>

theorem refresh_rotation_single_use:
  assumes healthy: "faults st = no_faults"
      and ttl: "parseInt (remove1 (CHR ''d'') (env_or (REFRESH_TOKEN_EXPIRES_IN ev) ''7d'')) = Some d"
      and user: "getUserById st uid = Inr (Some u)"
      and active: "u_active u"
      and key: "getActiveKeyPair st = Some k" "kp_privateKey k = PKCS8 n"
               "kp_algorithm k \<in> set rsa_algs"
      and span: "secs (env_or (ACCESS_TOKEN_EXPIRES_IN ev) ''15m'') = Some span"
      and range: "\<bar>setDate_plus ev t0 d\<bar> \<le> 8640000000000000"
                 "\<bar>setDate_plus ev t1 d\<bar> \<le> 8640000000000000"
      and times: "t1 \<le> t2" "\<not> setDate_plus ev t0 d < t2" "\<not> setDate_plus ev t1 d < t1"
      and fresh: "randomHex rnd1 \<noteq> randomHex rnd0"
  shows "\<exists>st1 a st2.
           generateRefreshToken ev st t0 rnd0 uid cid = (Inr (randomHex rnd0), st1)
         \<and> generateAccessToken secs ev st1 t1 u = Inr a
         \<and> refreshToken secs ev st1 t1 rnd1 (randomHex rnd0) =
             (Inr \<lparr>rr_success = True, rr_accessToken = a, rr_refreshToken = randomHex rnd1\<rparr>,
              st2)
         \<and> randomHex rnd1 \<noteq> randomHex rnd0
         \<and> verifyRefreshToken st2 t1 (randomHex rnd1) =
             Inr (issued_record (randomHex rnd1) (u_id u) cid (setDate_plus ev t1 d))
         \<and> fst (refreshToken secs ev st2 t2 rnd2 (randomHex rnd0)) =
             Inl (AppError ''Token de rafraichissement revoque'' 401 TOKEN_INVALID)"
proof -
  define tok where "tok = randomHex rnd0"
  define new where "new = randomHex rnd1"
  define r0 where "r0 = issued_record tok uid cid (setDate_plus ev t0 d)"
  define r1 where "r1 = issued_record new (u_id u) cid (setDate_plus ev t1 d)"
  define st1 where "st1 = st\<lparr>refreshTokens := r0 # refreshTokens st\<rparr>"
  define st1' where "st1' = st1\<lparr>refreshTokens := r1 # refreshTokens st1\<rparr>"
  define st2 where "st2 = st1'\<lparr>refreshTokens := map (mark_revoked t1 tok) (refreshTokens st1')\<rparr>"
  have up: "faults st op = None" for op
    by (simp add: healthy no_faults_def)
  have up1: "faults st1 op = None" "faults st1' op = None" "faults st2 op = None" for op
    by (simp_all add: st1_def st1'_def st2_def up)
  have asked: "path_param s tok = Some tok" "path_param s new = Some new" for s
    by (simp_all add: tok_def new_def path_param_randomHex)
  have differ: "new \<noteq> tok"
    using fresh by (simp add: tok_def new_def)
  have r0: "rt_token r0 = tok" "rt_userId r0 = uid" "rt_clientId r0 = cid"
           "rt_expiresAt r0 = setDate_plus ev t0 d" "rt_revokedAt r0 = None"
    by (simp_all add: r0_def issued_record_def)
  have r1: "rt_token r1 = new" "rt_revokedAt r1 = None" "rt_expiresAt r1 = setDate_plus ev t1 d"
    by (simp_all add: r1_def issued_record_def)
  have issue: "generateRefreshToken ev st t0 rnd0 uid cid = (Inr tok, st1)"
    using generateRefreshToken_stores [OF ttl range(1) up, of rnd0 uid cid]
    by (simp add: st1_def r0_def tok_def)
  have find1: "row_for rt_token (refreshTokens st1) (path_param st1 tok) = Some r0"
    by (simp add: asked row_for_def st1_def r0)
  have verify1: "verifyRefreshToken st1 t1 tok = Inr r0"
    using verifyRefreshToken_live [OF up1(1) find1, of t1] times r0 by simp
  have user1: "getUserById st1 (rt_userId r0) = Inr (Some u)"
    by (simp add: st1_def r0 user)
  obtain a where a: "generateAccessToken secs ev st t1 u = Inr a"
    using generateAccessToken_issues [where secs = secs and ev = ev and st = st and k = k
            and n = n and span = span and ?t0.0 = t1 and u = u] key span
    by blast
  then have a1: "generateAccessToken secs ev st1 t1 u = Inr a"
    by (simp add: st1_def)
  have new: "generateRefreshToken ev st1 t1 rnd1 (u_id u) (rt_clientId r0) = (Inr new, st1')"
    using generateRefreshToken_stores [OF ttl range(2) up1(1), of rnd1 "u_id u" cid]
    by (simp add: st1'_def r1_def r0 new_def)
  have find1': "find (\<lambda>r. rt_token r = tok) (refreshTokens st1') \<noteq> None"
    using differ by (simp add: st1'_def st1_def r0 r1)
  have revoke: "revokeRefreshToken st1' t1 tok = (True, st2)"
    using revokeRefreshToken_found [OF up1(2) find1', of t1] by (simp add: st2_def)
  have first: "refreshToken secs ev st1 t1 rnd1 tok =
                 (Inr \<lparr>rr_success = True, rr_accessToken = a, rr_refreshToken = new\<rparr>, st2)"
    using refreshToken_steps [OF verify1 user1 active a1 new] revoke by simp
  have find_new: "row_for rt_token (refreshTokens st2) (path_param st2 new) = Some r1"
    using differ by (simp add: asked row_for_def st2_def st1'_def mark_revoked_def r1)
  have stored: "verifyRefreshToken st2 t1 new = Inr r1"
    using verifyRefreshToken_live [OF up1(3) find_new, of t1] times r1 by simp
  have find2: "row_for rt_token (refreshTokens st2) (path_param st2 tok)
                 = Some (r0\<lparr>rt_revokedAt := Some t1\<rparr>)"
    using differ by (simp add: asked row_for_def st2_def st1'_def st1_def mark_revoked_def r0 r1)
  have verify2: "verifyRefreshToken st2 t2 tok =
                   Inl (AppError ''Token de rafraichissement revoque'' 401 TOKEN_INVALID)"
    using verifyRefreshToken_revoked [OF up1(3) find2, of t2] times r0 by simp
  then have second: "fst (refreshToken secs ev st2 t2 rnd2 tok) =
                   Inl (AppError ''Token de rafraichissement revoque'' 401 TOKEN_INVALID)"
    by (simp add: refreshToken_def)
  show ?thesis
    using issue a1 first differ stored second
    unfolding tok_def new_def r1_def by blast
qed

lemma env0_days:
  "parseInt (remove1 (CHR ''d'') (env_or (REFRESH_TOKEN_EXPIRES_IN env0) ''7d'')) = Some 7"
  by (simp add: parse_defs env0_def)

lemma env0_setDate: "setDate_plus env0 now d = now + d * 86400000"
  by (simp add: setDate_plus_def env0_def)

text \<open>
  Across the change to summer time of Europe/Paris the seven calendar days are an hour
  short of seven times 24 hours.
\<close>

lemma setDate_across_summer_time:
  "setDate_plus (env0\<lparr>LocalTZA := paris_spring_2024\<rparr>) 1711500000000 7
     = 1711500000000 + 7 * 86400000 - 3600000"
  by (simp add: setDate_plus_def paris_spring_2024_def)

lemma store0_u1: "getUserById store0 ''u1'' = Inr (Some alice)"
  by (simp add: client_defs fixture_defs)

lemma last_hex_digits: "0 < k \<Longrightarrow> last (hex_digits k n) = hex_char (n mod 16)"
  by (cases k) simp_all

lemma randomHex_1_2: "randomHex 2 \<noteq> randomHex 1"
proof
  assume "randomHex 2 = randomHex 1"
  then have "last (randomHex 2) = last (randomHex 1)" by simp
  then show False
    by (simp add: randomHex_def last_hex_digits hex_char_def)
qed

theorem refresh_rotation_single_use_witness:
  "faults store0 = no_faults
   \<and> getUserById store0 ''u1'' = Inr (Some alice)
   \<and> u_active alice
   \<and> getActiveKeyPair store0 = Some key1
   \<and> randomHex 2 \<noteq> randomHex 1
   \<and> (\<exists>st1 a st2.
           generateRefreshToken env0 store0 0 1 ''u1'' None = (Inr (randomHex 1), st1)
         \<and> generateAccessToken secs0 env0 st1 1000 alice = Inr a
         \<and> refreshToken secs0 env0 st1 1000 2 (randomHex 1) =
             (Inr \<lparr>rr_success = True, rr_accessToken = a, rr_refreshToken = randomHex 2\<rparr>, st2)
         \<and> verifyRefreshToken st2 1000 (randomHex 2) =
             Inr (issued_record (randomHex 2) ''u1'' None 604801000)
         \<and> fst (refreshToken secs0 env0 st2 2000 3 (randomHex 1)) =
             Inl (AppError ''Token de rafraichissement revoque'' 401 TOKEN_INVALID))"
proof -
  have h: "faults store0 = no_faults" by (simp add: store0_def)
  have a: "u_active alice" by (simp add: alice_def)
  have "\<exists>st1 a st2.
           generateRefreshToken env0 store0 0 1 ''u1'' None = (Inr (randomHex 1), st1)
         \<and> generateAccessToken secs0 env0 st1 1000 alice = Inr a
         \<and> refreshToken secs0 env0 st1 1000 2 (randomHex 1) =
             (Inr \<lparr>rr_success = True, rr_accessToken = a, rr_refreshToken = randomHex 2\<rparr>, st2)
         \<and> randomHex 2 \<noteq> randomHex 1
         \<and> verifyRefreshToken st2 1000 (randomHex 2) =
             Inr (issued_record (randomHex 2) (u_id alice) None (setDate_plus env0 1000 7))
         \<and> fst (refreshToken secs0 env0 st2 2000 3 (randomHex 1)) =
             Inl (AppError ''Token de rafraichissement revoque'' 401 TOKEN_INVALID)"
    using refresh_rotation_single_use [where secs = secs0 and ev = env0 and st = store0
            and d = 7 and uid = "''u1''" and u = alice and k = key1 and n = 1 and span = 900
            and ?t0.0 = 0 and ?t1.0 = 1000 and ?t2.0 = 2000 and ?rnd0.0 = 1 and ?rnd1.0 = 2
            and cid = None and ?rnd2.0 = 3]
          h env0_days store0_u1 a store0_active env0_span randomHex_1_2
    by (simp add: key1_def rsa_algs_def env0_setDate)
  then show ?thesis
    using h store0_u1 a store0_active randomHex_1_2
    by (simp add: env0_setDate alice_def)
qed

lemma verifyRefreshToken_InrD:
  assumes "verifyRefreshToken st now t = Inr r"
  shows "getRefreshTokenByValue st t = Inr (Some r) \<and> \<not> rt_expiresAt r < now
         \<and> rt_revokedAt r = None"
  using assms
  by (auto simp: verifyRefreshToken_def split: sum.splits option.splits if_splits)

lemma getRefreshTokenByValue_SomeD:
  assumes "getRefreshTokenByValue st t = Inr (Some r)"
  shows "faults st OpGetRefreshTokenByValue = None
         \<and> row_for rt_token (refreshTokens st) (path_param st t) = Some r"
  using assms
  by (auto simp: getRefreshTokenByValue_def endpoint_def found_def null_on_404_def
           split: option.splits if_splits)

lemma row_for_other:
  assumes "asked \<noteq> Some (key x)"
  shows "row_for key (x # rows) asked = row_for key rows asked"
  using assms by (cases asked) (auto simp: row_for_def)

text \<open>
  C10. When the revocation endpoint fails (with any error \<open>e\<close>) and everything before
  it goes well, \<open>revokeRefreshToken\<close> returns false, \<open>refreshToken\<close> still returns
  success with the new refresh token, the store it leaves is exactly the store in which
  the new token was persisted, and in that store both the presented token and the new
  token pass \<open>verifyRefreshToken\<close>.
\<close>

theorem rotation_succeeds_without_revocation:
  assumes fault: "faults st OpRevokeRefreshToken = Some e"
      and create: "faults st OpCreateRefreshToken = None"
      and live: "verifyRefreshToken st now tok = Inr r"
      and user: "getUserById st (rt_userId r) = Inr (Some u)"
      and active: "u_active u"
      and access: "generateAccessToken secs ev st now u = Inr a"
      and ttl: "parseInt (remove1 (CHR ''d'') (env_or (REFRESH_TOKEN_EXPIRES_IN ev) ''7d'')) = Some d"
      and born: "\<not> setDate_plus ev now d < now"
      and range: "\<bar>setDate_plus ev now d\<bar> \<le> 8640000000000000"
      and fresh: "path_param st tok \<noteq> Some (randomHex rnd)"
  shows "\<exists>st1. generateRefreshToken ev st now rnd (u_id u) (rt_clientId r)
                = (Inr (randomHex rnd), st1)
            \<and> revokeRefreshToken st1 now tok = (False, st1)
            \<and> refreshToken secs ev st now rnd tok =
                (Inr \<lparr>rr_success = True, rr_accessToken = a, rr_refreshToken = randomHex rnd\<rparr>,
                 st1)
            \<and> verifyRefreshToken st1 now tok = Inr r
            \<and> (\<exists>r'. verifyRefreshToken st1 now (randomHex rnd) = Inr r'
                    \<and> rt_userId r' = u_id u)"
proof -
  define r1 where
    "r1 = issued_record (randomHex rnd) (u_id u) (rt_clientId r) (setDate_plus ev now d)"
  define st1 where "st1 = st\<lparr>refreshTokens := r1 # refreshTokens st\<rparr>"
  have r1: "rt_token r1 = randomHex rnd" "rt_userId r1 = u_id u" "rt_revokedAt r1 = None"
           "rt_expiresAt r1 = setDate_plus ev now d"
    by (simp_all add: r1_def issued_record_def)
  have old: "row_for rt_token (refreshTokens st) (path_param st tok) = Some r"
            "faults st OpGetRefreshTokenByValue = None"
            "\<not> rt_expiresAt r < now" "rt_revokedAt r = None"
    using verifyRefreshToken_InrD [OF live] getRefreshTokenByValue_SomeD [of st tok r]
    by simp_all
  have up1: "faults st1 OpGetRefreshTokenByValue = None" "faults st1 OpRevokeRefreshToken = Some e"
    by (simp_all add: st1_def old fault)
  have new: "generateRefreshToken ev st now rnd (u_id u) (rt_clientId r)
               = (Inr (randomHex rnd), st1)"
    using generateRefreshToken_stores [OF ttl range create, of rnd "u_id u" "rt_clientId r"]
    by (simp add: st1_def r1_def)
  have revoke: "revokeRefreshToken st1 now tok = (False, st1)"
    by (rule revokeRefreshToken_fault [OF up1(2)])
  have result: "refreshToken secs ev st now rnd tok =
                  (Inr \<lparr>rr_success = True, rr_accessToken = a, rr_refreshToken = randomHex rnd\<rparr>,
                   st1)"
    using refreshToken_steps [OF live user active access new] revoke by simp
  have "row_for rt_token (refreshTokens st1) (path_param st1 tok) = Some r"
    using fresh old(1) by (simp add: st1_def row_for_other r1)
  then have old_live: "verifyRefreshToken st1 now tok = Inr r"
    using verifyRefreshToken_live [OF up1(1), of tok r now] old by simp
  have "row_for rt_token (refreshTokens st1) (path_param st1 (randomHex rnd)) = Some r1"
    by (simp add: st1_def path_param_randomHex row_for_def r1)
  then have new_live: "verifyRefreshToken st1 now (randomHex rnd) = Inr r1"
    using verifyRefreshToken_live [OF up1(1), of "randomHex rnd" r1 now] born r1 by simp
  show ?thesis
    using new revoke result old_live new_live r1(2) by blast
qed

lemma store_revoke_down_live:
  "verifyRefreshToken store_revoke_down 1000 ''live'' =
     Inr \<lparr>rt_token = ''live'', rt_userId = ''u1'', rt_clientId = Some ''web'',
          rt_expiresAt = 9000, rt_revokedAt = None\<rparr>"
  by (simp add: verifyRefreshToken_def client_defs store_revoke_down_def store_tokens_def
        store0_def)

lemma store_revoke_down_u1: "getUserById store_revoke_down ''u1'' = Inr (Some alice)"
  by (simp add: client_defs store_revoke_down_def store_tokens_def store0_def alice_def)

lemma store_revoke_down_access:
  "generateAccessToken secs0 env0 store_revoke_down 1000 alice =
     Inr (signed_with key1 1 (access_claims env0 1000 900 alice))"
  by (simp add: generateAccessToken_def getActiveKeyPair_def client_defs jose_defs env_or_def
        store_revoke_down_def store_tokens_def store0_def key1_def secs0_def env0_def
        signed_with_def access_claims_def)

lemma live_is_no_randomHex: "path_param store_revoke_down ''live'' \<noteq> Some (randomHex 2)"
proof
  assume "path_param store_revoke_down ''live'' = Some (randomHex 2)"
  then have "randomHex 2 = ''live''"
    by (simp add: path_param_def cut_at_query_def plain_segment_def unreserved_def)
  then have "length (randomHex 2) = length ''live''" by simp
  then show False by (simp add: length_randomHex)
qed

theorem rotation_succeeds_without_revocation_witness:
  "faults store_revoke_down OpRevokeRefreshToken = Some (HttpStatus 503)
   \<and> (\<exists>r. verifyRefreshToken store_revoke_down 1000 ''live'' = Inr r)
   \<and> (\<exists>st1. fst (refreshToken secs0 env0 store_revoke_down 1000 2 ''live'') =
               Inr \<lparr>rr_success = True,
                    rr_accessToken = signed_with key1 1 (access_claims env0 1000 900 alice),
                    rr_refreshToken = randomHex 2\<rparr>
            \<and> snd (refreshToken secs0 env0 store_revoke_down 1000 2 ''live'') = st1
            \<and> (\<exists>r. verifyRefreshToken st1 1000 ''live'' = Inr r)
            \<and> (\<exists>r'. verifyRefreshToken st1 1000 (randomHex 2) = Inr r'))"
proof -
  have f: "faults store_revoke_down OpRevokeRefreshToken = Some (HttpStatus 503)"
          "faults store_revoke_down OpCreateRefreshToken = None"
    by (simp_all add: store_revoke_down_def)
  have u: "getUserById store_revoke_down
             (rt_userId \<lparr>rt_token = ''live'', rt_userId = ''u1'', rt_clientId = Some ''web'',
                         rt_expiresAt = 9000, rt_revokedAt = None\<rparr>) = Inr (Some alice)"
    using store_revoke_down_u1 by simp
  have a: "u_active alice" by (simp add: alice_def)
  have b: "\<not> setDate_plus env0 1000 7 < 1000" by (simp add: env0_setDate)
  have r: "\<bar>setDate_plus env0 1000 7\<bar> \<le> 8640000000000000" by (simp add: env0_setDate)
  have "\<exists>st1. generateRefreshToken env0 store_revoke_down 1000 2 (u_id alice)
                 (rt_clientId \<lparr>rt_token = ''live'', rt_userId = ''u1'', rt_clientId = Some ''web'',
                         rt_expiresAt = 9000, rt_revokedAt = None\<rparr>) = (Inr (randomHex 2), st1)
            \<and> revokeRefreshToken st1 1000 ''live'' = (False, st1)
            \<and> refreshToken secs0 env0 store_revoke_down 1000 2 ''live'' =
                (Inr \<lparr>rr_success = True,
                      rr_accessToken = signed_with key1 1 (access_claims env0 1000 900 alice),
                      rr_refreshToken = randomHex 2\<rparr>, st1)
            \<and> verifyRefreshToken st1 1000 ''live'' =
                Inr \<lparr>rt_token = ''live'', rt_userId = ''u1'', rt_clientId = Some ''web'',
                         rt_expiresAt = 9000, rt_revokedAt = None\<rparr>
            \<and> (\<exists>r'. verifyRefreshToken st1 1000 (randomHex 2) = Inr r'
                    \<and> rt_userId r' = u_id alice)"
    by (rule rotation_succeeds_without_revocation
              [OF f(1) f(2) store_revoke_down_live u a store_revoke_down_access env0_days b r
                  live_is_no_randomHex])
  then show ?thesis
    using f(1) store_revoke_down_live by force
qed

text \<open>
  The revocation sends the presented value in the request body, whole: a rotation with
  \<open>live#x\<close> succeeds and leaves the record of \<open>live\<close> unrevoked.
\<close>

lemma rotation_with_fragment_keeps_record:
  "map_sum id (\<lambda>r. (rr_success r, rr_refreshToken r))
     (fst (refreshToken secs0 env0 store_tokens 1000 2 ''live#x'')) = Inr (True, randomHex 2)
   \<and> verifyRefreshToken (snd (refreshToken secs0 env0 store_tokens 1000 2 ''live#x'')) 1000
       ''live'' =
       Inr \<lparr>rt_token = ''live'', rt_userId = ''u1'', rt_clientId = Some ''web'',
            rt_expiresAt = 9000, rt_revokedAt = None\<rparr>"
proof -
  define r where "r = \<lparr>rt_token = ''live'', rt_userId = ''u1'', rt_clientId = Some ''web'',
            rt_expiresAt = 9000, rt_revokedAt = None\<rparr>"
  define r1 where "r1 = issued_record (randomHex 2) ''u1'' (Some ''web'') (setDate_plus env0 1000 7)"
  define st1 where "st1 = store_tokens\<lparr>refreshTokens := r1 # refreshTokens store_tokens\<rparr>"
  have up: "faults store_tokens op = None" for op
    by (simp add: store_tokens_def store0_def no_faults_def)
  have verify: "verifyRefreshToken store_tokens 1000 ''live#x'' = Inr r"
    by (simp add: verifyRefreshToken_answered [OF up] path_param_fragment row_for_def
          store_tokens_records r_def)
  have user: "getUserById store_tokens (rt_userId r) = Inr (Some alice)"
    by (simp add: r_def client_defs store_tokens_def store0_def no_faults_def alice_def)
  have active: "u_active alice" by (simp add: alice_def)
  have access: "generateAccessToken secs0 env0 store_tokens 1000 alice =
                  Inr (signed_with key1 1 (access_claims env0 1000 900 alice))"
    by (simp add: generateAccessToken_def getActiveKeyPair_def client_defs jose_defs env_or_def
          store_tokens_def store0_def no_faults_def key1_def secs0_def env0_def signed_with_def
          access_claims_def)
  have new: "generateRefreshToken env0 store_tokens 1000 2 (u_id alice) (rt_clientId r)
               = (Inr (randomHex 2), st1)"
    using generateRefreshToken_stores [OF env0_days _ up, of 1000 2 "u_id alice" "rt_clientId r"]
    by (simp add: env0_setDate st1_def r1_def r_def alice_def)
  have len: "rt_token r1 \<noteq> ''live#x''"
  proof
    assume "rt_token r1 = ''live#x''"
    then have "length (randomHex 2) = length ''live#x''"
      by (simp add: r1_def issued_record_def)
    then show False by (simp add: length_randomHex)
  qed
  have len': "rt_token r1 \<noteq> ''live''"
  proof
    assume "rt_token r1 = ''live''"
    then have "length (randomHex 2) = length ''live''"
      by (simp add: r1_def issued_record_def)
    then show False by (simp add: length_randomHex)
  qed
  have revoke: "revokeRefreshToken st1 1000 ''live#x'' = (False, st1)"
    using len
    by (simp add: revokeRefreshToken_def db_revokeRefreshToken_def st1_def up
          store_tokens_records)
  have result: "refreshToken secs0 env0 store_tokens 1000 2 ''live#x'' =
          (Inr \<lparr>rr_success = True,
                rr_accessToken = signed_with key1 1 (access_claims env0 1000 900 alice),
                rr_refreshToken = randomHex 2\<rparr>, st1)"
    using refreshToken_steps [OF verify user active access new] revoke by simp
  have up1: "faults st1 OpGetRefreshTokenByValue = None"
    by (simp add: st1_def up)
  have still: "verifyRefreshToken st1 1000 ''live'' = Inr r"
    unfolding verifyRefreshToken_answered [OF up1]
    using len'
    by (simp add: path_param_def cut_at_query_def plain_segment_def unreserved_def row_for_def
          st1_def store_tokens_records r_def)
  show ?thesis
    by (simp add: result still r_def)
qed

subsection \<open>Federated login\<close>

lemma generateRefreshToken_InrD:
  assumes "generateRefreshToken ev st now rnd uid cid = (Inr t, st')"
  shows "t = randomHex rnd
         \<and> (\<exists>x. st' = st\<lparr>refreshTokens :=
                           issued_record (randomHex rnd) uid cid x # refreshTokens st\<rparr>)"
  using assms
  by (auto simp: generateRefreshToken_def createRefreshToken_def issued_record_def Let_def
           split: option.splits if_splits sum.splits prod.splits)

lemma exchangeCodeForToken_InrD:
  assumes "exchangeCodeForToken ev provider replies = Inr td"
  shows "tokenReply replies = Inr td"
  using assms
  by (auto simp: exchangeCodeForToken_def split: option.splits if_splits sum.splits)

lemma authenticateWithProvider_InrD:
  assumes "authenticateWithProvider secs ev st now rnd pw provider replies = (Inr res, st')"
  shows "\<exists>td st1 x.
           tokenReply replies = Inr td
         \<and> fr_tokenData res = Some \<lparr>pt_accessToken = access_token td,
                                    pt_refreshToken = refresh_token td,
                                    pt_expiresIn = expires_in td\<rparr>
         \<and> generateAccessToken secs ev st1 now (fr_user res) = Inr (fr_accessToken res)
         \<and> fr_refreshToken res = randomHex rnd
         \<and> st' = st1\<lparr>refreshTokens :=
                       issued_record (randomHex rnd) (u_id (fr_user res)) None x # refreshTokens st1\<rparr>"
  using assms
  apply (auto simp: authenticateWithProvider_def
           dest!: exchangeCodeForToken_InrD generateRefreshToken_InrD
           split: sum.splits prod.splits if_splits)
  apply (rule exI, rule conjI, assumption)
  apply (rule exI, rule refl)
  done

lemma authenticateWithAuth0_InrD:
  assumes "authenticateWithAuth0 secs ev st now rnd pw replies auth0Token = (Inr res, st')"
  shows "\<exists>st1 x.
           fr_tokenData res = None
         \<and> generateAccessToken secs ev st1 now (fr_user res) = Inr (fr_accessToken res)
         \<and> fr_refreshToken res = randomHex rnd
         \<and> st' = st1\<lparr>refreshTokens :=
                       issued_record (randomHex rnd) (u_id (fr_user res)) None x # refreshTokens st1\<rparr>"
  using assms
  apply (auto simp: authenticateWithAuth0_def
           dest!: generateRefreshToken_InrD
           split: sum.splits prod.splits if_splits)
  apply (rule exI, rule conjI, assumption)
  apply (rule exI, rule refl)
  done

lemmas federation_defs =
  truthy_def first_word_def other_words_def tmpl_def nullable_def assign_def assign_nullable_def
  apply_update_def updateUser_def createUser_def providers_def configured_def
  exchangeCodeForToken_def normalizeUserInfo_def github_emails_def getUserInfo_def
  oauth_sync_error_def syncOAuthUser_def jsonwebtoken_verify_def verifyAuth0Token_try_def
  verifyAuth0Token_def auth0_userData_def syncAuth0User_try_def syncAuth0User_def
  getAuth0UserInfo_def userByEmail_or_null_def

lemma google_login_evaluates:
  "map_sum id fr_tokenData
     (fst (authenticateWithProvider secs0 env0 store0 1000 1 ''Pw!'' ''google'' google_replies))
   = Inr (Some \<lparr>pt_accessToken = Val ''ya29.provider-access'',
                 pt_refreshToken = Val ''1//provider-refresh'', pt_expiresIn = Val 3599\<rparr>)"
  by (simp add: authenticateWithProvider_def federation_defs client_defs jose_defs parse_defs
        fixture_defs generateAccessToken_def getActiveKeyPair_def generateRefreshToken_def
        setDate_plus_def Let_def
        google_replies_def)

lemma auth0_login_evaluates:
  "map_sum id fr_tokenData
     (fst (authenticateWithAuth0 secs0 env0 store0 1000 1 ''Pw!'' auth0_answers auth0_token))
   = Inr None"
  by (simp add: authenticateWithAuth0_def federation_defs client_defs jose_defs parse_defs
        fixture_defs generateAccessToken_def getActiveKeyPair_def generateRefreshToken_def
        setDate_plus_def Let_def
        auth0_answers_def auth0_profile_def auth0_token_def)

text \<open>
  C5, as stated, fails on the generic OAuth2 path: the result of a successful Google login
  carries, under \<open>tokenData\<close>, the access token and the refresh token that the provider
  issued in the code exchange.
\<close>

theorem oauth_login_returns_provider_tokens_counterexample:
  "tokenReply google_replies =
     Inr \<lparr>access_token = Val ''ya29.provider-access'',
          refresh_token = Val ''1//provider-refresh'', expires_in = Val 3599\<rparr>
   \<and> map_sum id fr_tokenData
       (fst (authenticateWithProvider secs0 env0 store0 1000 1 ''Pw!'' ''google''
               google_replies))
     = Inr (Some \<lparr>pt_accessToken = Val ''ya29.provider-access'',
                   pt_refreshToken = Val ''1//provider-refresh'', pt_expiresIn = Val 3599\<rparr>)"
  using google_login_evaluates by (simp add: google_replies_def)

text \<open>
  C5 (amended). Every successful federated login returns this service's own tokens: an
  access token signed by \<open>generateAccessToken\<close> for the synchronised local user and the
  refresh token that was just stored for that user. On the hosted-identity-platform path
  the result has no \<open>tokenData\<close>, so no provider-issued token is returned. On the
  generic OAuth2 path the result also carries \<open>tokenData\<close> with the access token, the
  refresh token and the expiry that the provider answered in the code exchange.
\<close>

theorem federated_login_result:
  "(authenticateWithProvider secs ev st now rnd pw provider replies = (Inr res, st') \<longrightarrow>
      (\<exists>td st1 x.
           tokenReply replies = Inr td
         \<and> fr_tokenData res = Some \<lparr>pt_accessToken = access_token td,
                                    pt_refreshToken = refresh_token td,
                                    pt_expiresIn = expires_in td\<rparr>
         \<and> generateAccessToken secs ev st1 now (fr_user res) = Inr (fr_accessToken res)
         \<and> fr_refreshToken res = randomHex rnd
         \<and> st' = st1\<lparr>refreshTokens :=
                       issued_record (randomHex rnd) (u_id (fr_user res)) None x # refreshTokens st1\<rparr>))
   \<and> (authenticateWithAuth0 secs ev st now rnd pw answers auth0Token = (Inr res0, st0') \<longrightarrow>
      (\<exists>st1 x.
           fr_tokenData res0 = None
         \<and> generateAccessToken secs ev st1 now (fr_user res0) = Inr (fr_accessToken res0)
         \<and> fr_refreshToken res0 = randomHex rnd
         \<and> st0' = st1\<lparr>refreshTokens :=
                       issued_record (randomHex rnd) (u_id (fr_user res0)) None x # refreshTokens st1\<rparr>))"
proof (intro conjI impI)
  assume "authenticateWithProvider secs ev st now rnd pw provider replies = (Inr res, st')"
  then show "\<exists>td st1 x.
           tokenReply replies = Inr td
         \<and> fr_tokenData res = Some \<lparr>pt_accessToken = access_token td,
                                    pt_refreshToken = refresh_token td,
                                    pt_expiresIn = expires_in td\<rparr>
         \<and> generateAccessToken secs ev st1 now (fr_user res) = Inr (fr_accessToken res)
         \<and> fr_refreshToken res = randomHex rnd
         \<and> st' = st1\<lparr>refreshTokens :=
                       issued_record (randomHex rnd) (u_id (fr_user res)) None x # refreshTokens st1\<rparr>"
    by (rule authenticateWithProvider_InrD)
next
  assume "authenticateWithAuth0 secs ev st now rnd pw answers auth0Token = (Inr res0, st0')"
  then show "\<exists>st1 x.
           fr_tokenData res0 = None
         \<and> generateAccessToken secs ev st1 now (fr_user res0) = Inr (fr_accessToken res0)
         \<and> fr_refreshToken res0 = randomHex rnd
         \<and> st0' = st1\<lparr>refreshTokens :=
                       issued_record (randomHex rnd) (u_id (fr_user res0)) None x # refreshTokens st1\<rparr>"
    by (rule authenticateWithAuth0_InrD)
qed

lemma map_sum_fst_InrD:
  assumes "map_sum id f (fst p) = Inr y"
  shows "\<exists>res st'. p = (Inr res, st') \<and> f res = y"
  using assms by (cases p; cases "fst p") auto

theorem federated_login_result_witness:
  "(\<exists>res st'. authenticateWithProvider secs0 env0 store0 1000 1 ''Pw!'' ''google''
                 google_replies = (Inr res, st')
             \<and> fr_refreshToken res = randomHex 1
             \<and> (\<exists>td. tokenReply google_replies = Inr td
                     \<and> fr_tokenData res = Some \<lparr>pt_accessToken = access_token td,
                                                pt_refreshToken = refresh_token td,
                                                pt_expiresIn = expires_in td\<rparr>))
   \<and> (\<exists>res st'. authenticateWithAuth0 secs0 env0 store0 1000 1 ''Pw!'' auth0_answers
                   auth0_token = (Inr res, st')
               \<and> fr_refreshToken res = randomHex 1 \<and> fr_tokenData res = None)"
proof -
  obtain res st' where g:
    "authenticateWithProvider secs0 env0 store0 1000 1 ''Pw!'' ''google'' google_replies
       = (Inr res, st')"
    using map_sum_fst_InrD [OF google_login_evaluates] by blast
  obtain res0 st0' where a:
    "authenticateWithAuth0 secs0 env0 store0 1000 1 ''Pw!'' auth0_answers auth0_token
       = (Inr res0, st0')"
    using map_sum_fst_InrD [OF auth0_login_evaluates] by blast
  show ?thesis
    using federated_login_result [where secs = secs0 and ev = env0 and st = store0
            and now = 1000 and rnd = 1 and pw = "''Pw!''" and provider = "''google''"
            and replies = google_replies and res = res and st' = st'
            and answers = auth0_answers and auth0Token = auth0_token and ?res0.0 = res0
            and st0' = st0'] g a
    by auto
qed

text \<open>The generic OAuth path never sends the verified flag, the roles or the email of an existing user.\<close>

lemma syncOAuthUser_keeps_verified:
  assumes "getUserByEmail st e = Inr (Some u)"
      and "n_email identity = Val e"
      and "row_for u_id (users st) (path_param st (u_id u)) = Some u"
      and "syncOAuthUser st pw identity = (Inr u', st')"
  shows "u_emailVerified u' = u_emailVerified u \<and> u_roles u' = u_roles u
         \<and> u_email u' = u_email u \<and> u_active u' = u_active u"
  using assms
  by (auto simp: syncOAuthUser_def updateUser_def apply_update_def assign_def
           split: option.splits if_splits)

text \<open>
  C3. The code at a failing input: \<open>alice\<close> is stored with a verified email and the
  role \<open>ADMIN\<close>; the hosted identity platform reports her email with
  \<open>email_verified\<close> false. \<open>syncAuth0User\<close> sends the verified flag (and the roles)
  in the update, so afterwards the stored flag is false and the roles are reset.
\<close>

theorem auth0_sync_clears_verified_flag:
  "map_sum id (map_option (\<lambda>u. (u_emailVerified u, u_roles u)))
     (getUserByEmail store0 ''alice@example.com'') = Inr (Some (True, [''ADMIN'']))
   \<and> a_email_verified auth0_profile = Val False
   \<and> p_emailVerified (auth0_userData ''alice@example.com'' auth0_profile) = Val False
   \<and> map_sum id (\<lambda>u. (u_id u, u_emailVerified u, u_roles u))
       (fst (syncAuth0User store0 ''Pw!'' auth0_profile)) = Inr (''u1'', False, [''USER''])
   \<and> map_sum id (map_option (\<lambda>u. (u_emailVerified u, u_roles u)))
       (getUserByEmail (snd (syncAuth0User store0 ''Pw!'' auth0_profile)) ''alice@example.com'')
     = Inr (Some (False, [''USER'']))"
proof -
  define alice' where
    "alice' = alice\<lparr>u_roles := [''USER''], u_emailVerified := False,
                     u_lastName := Some ''Liddell''\<rparr>"
  have before: "getUserByEmail store0 ''alice@example.com'' = Inr (Some alice)"
    by (simp add: client_defs fixture_defs)
  have reported: "a_email_verified auth0_profile = Val False"
    by (simp add: auth0_profile_def)
  have payload: "auth0_userData ''alice@example.com'' auth0_profile =
      \<lparr>p_email = Val ''alice@example.com'', p_password = Undefined,
       p_firstName = Val ''Alice'', p_lastName = Val ''Liddell'', p_picture = Null,
       p_emailVerified = Val False, p_roles = Val [''USER''], p_active = Undefined,
       p_provider = Undefined, p_providerId = Undefined\<rparr>"
    by (simp add: auth0_userData_def truthy_def auth0_profile_def)
  have update: "updateUser store0 ''u1'' (auth0_userData ''alice@example.com'' auth0_profile) =
      (Inr alice', store0\<lparr>users := [alice']\<rparr>)"
    unfolding payload
    by (simp add: updateUser_def apply_update_def assign_def assign_nullable_def alice'_def
          row_for_def path_param_def cut_at_query_def plain_segment_def unreserved_def
          store0_def no_faults_def alice_def)
  have sync: "syncAuth0User store0 ''Pw!'' auth0_profile = (Inr alice', store0\<lparr>users := [alice']\<rparr>)"
    using before update
    by (simp add: syncAuth0User_def syncAuth0User_try_def userByEmail_or_null_def truthy_def
          auth0_profile_def alice_def)
  have after: "getUserByEmail (store0\<lparr>users := [alice']\<rparr>) ''alice@example.com'' = Inr (Some alice')"
    by (simp add: client_defs alice'_def store0_def no_faults_def alice_def)
  show ?thesis
    by (simp add: before reported payload sync after) (simp add: alice'_def alice_def)
qed

end
